theory Spec2Isabelle
  imports Complex_Main "HOL-Library.AList"
begin

section \<open>Python values, exceptions and document nodes\<close>

text \<open>
  The values a feature stores. A Python \<^verbatim>\<open>float\<close> is represented by the rational number it
  denotes (every finite double is one); rounding happens only in the conversions, which
  are kept apart below. A feature instance is a \<^verbatim>\<open>dict\<close> subclass, so a nested feature such
  as a placement is a \<open>PDict\<close>: its entries in insertion order.
\<close>

datatype pyval =
    PNone
  | PBool bool
  | PInt int
  | PFloat rat
  | PStr string
  | PTuple "pyval list"
  | PList "pyval list"
  | PDict "(string \<times> pyval) list"

text \<open>
  The exceptions the sources raise. \<^verbatim>\<open>InvalidArgument\<close> is raised at two places of
  \<^verbatim>\<open>CaveFeature.__setitem__\<close> with two message formats; the payload keeps the arguments
  of the format: \<open>NotValidOption key\<close> is
  \<^verbatim>\<open>"{} not a valid option for this Cave feature".format(key)\<close> and
  \<open>NotValidValue value key\<close> is
  \<^verbatim>\<open>"{} is not a valid value for option {}".format(value, key)\<close>.
\<close>

datatype invalid_msg =
    NotValidOption string
  | NotValidValue pyval string

datatype error =
    InvalidArgument invalid_msg
  | KeyError string
  | BadCaveXML string
  | BadW3DXML string
  | ConsistencyError string
  | NotImplementedError string
  | AttributeError
  | TypeError
  | ValueError
  | IndexError
  | OverflowError

text \<open>
  An \<^verbatim>\<open>xml.etree.ElementTree.Element\<close>: tag, attribute dictionary, text and children.
  In memory the attribute dictionary and the text hold whatever Python value was put
  there, so both are \<open>pyval\<close>s (\<open>PNone\<close> is the text of a fresh element).
\<close>

datatype xml =
  Element (el_tag: string) (el_attrib: "(string \<times> pyval) list") (el_text: pyval)
    (el_children: "xml list")

definition SubElement :: "xml \<Rightarrow> xml \<Rightarrow> xml" where
  \<comment> \<open>\<^verbatim>\<open>ET.SubElement(parent, ...)\<close>: the parent once the new element is appended to it.\<close>
  "SubElement parent child =
     Element (el_tag parent) (el_attrib parent) (el_text parent) (el_children parent @ [child])"

definition find_child :: "xml \<Rightarrow> string \<Rightarrow> xml option" where
  \<comment> \<open>\<^verbatim>\<open>node.find(tag)\<close>: the first direct child with that tag, or \<^verbatim>\<open>None\<close>.\<close>
  "find_child node t = List.find (\<lambda>c. el_tag c = t) (el_children node)"

subsection \<open>Class methods\<close>

text \<open>
  Python binds the class to the first parameter of a function declared \<^verbatim>\<open>@classmethod\<close>,
  and the arguments of the call to the parameters after it. A parameter of the parsers
  therefore holds a class or a document node. A call with more or fewer arguments than the
  function has parameters left is a \<^verbatim>\<open>TypeError\<close>, raised before the body runs.
\<close>

datatype param = Class string | Node xml

definition classmethod1 :: "string \<Rightarrow> (param \<Rightarrow> error + 'a) \<Rightarrow> param list \<Rightarrow> error + 'a" where
  \<comment> \<open>calling \<^verbatim>\<open>cls.f(*args)\<close> where \<^verbatim>\<open>f\<close> is declared with one parameter: the class takes it\<close>
  "classmethod1 cls func args = (case args of [] \<Rightarrow> func (Class cls) | _ \<Rightarrow> Inl TypeError)"

definition classmethod2 ::
  "string \<Rightarrow> (param \<Rightarrow> param \<Rightarrow> error + 'a) \<Rightarrow> param list \<Rightarrow> error + 'a" where
  \<comment> \<open>calling \<^verbatim>\<open>cls.f(*args)\<close> where \<^verbatim>\<open>f\<close> is declared with two parameters\<close>
  "classmethod2 cls func args = (case args of [x] \<Rightarrow> func (Class cls) x | _ \<Rightarrow> Inl TypeError)"

subsection \<open>Truth value, numbers\<close>

fun py_truthy :: "pyval \<Rightarrow> bool" where
  "py_truthy PNone = False"
| "py_truthy (PBool b) = b"
| "py_truthy (PInt n) = (n \<noteq> 0)"
| "py_truthy (PFloat r) = (r \<noteq> 0)"
| "py_truthy (PStr s) = (s \<noteq> [])"
| "py_truthy (PTuple xs) = (xs \<noteq> [])"
| "py_truthy (PList xs) = (xs \<noteq> [])"
| "py_truthy (PDict kvs) = (kvs \<noteq> [])"

fun py_num :: "pyval \<Rightarrow> rat option" where
  \<comment> \<open>The number a value of Python's numeric tower (bool, int, float) compares as.\<close>
  "py_num (PBool b) = Some (if b then 1 else 0)"
| "py_num (PInt n) = Some (of_int n)"
| "py_num (PFloat r) = Some r"
| "py_num _ = None"

definition py_eq_num :: "pyval \<Rightarrow> rat \<Rightarrow> bool" where
  \<comment> \<open>\<^verbatim>\<open>v == c\<close> for a numeric constant \<open>c\<close>: false for a value that is not a number.\<close>
  "py_eq_num v c = (py_num v = Some c)"

definition py_lt_num :: "pyval \<Rightarrow> rat \<Rightarrow> error + bool" where
  \<comment> \<open>\<^verbatim>\<open>v < c\<close>: Python 3 raises \<^verbatim>\<open>TypeError\<close> when \<open>v\<close> is not a number.\<close>
  "py_lt_num v c = (case py_num v of None \<Rightarrow> Inl TypeError | Some x \<Rightarrow> Inr (x < c))"

definition py_gt_num :: "pyval \<Rightarrow> rat \<Rightarrow> error + bool" where
  "py_gt_num v c = (case py_num v of None \<Rightarrow> Inl TypeError | Some x \<Rightarrow> Inr (c < x))"

section \<open>features.py: the base class CaveFeature\<close>

text \<open>
  A feature class is its two class attributes: \<^verbatim>\<open>argument_validators\<close>, from names to
  callables returning a truth value, and \<^verbatim>\<open>default_arguments\<close>. An instance is the
  dictionary itself.
\<close>

record feature_class =
  argument_validators :: "string \<Rightarrow> (pyval \<Rightarrow> bool) option"
  default_arguments :: "string \<Rightarrow> pyval option"

type_synonym feature = "(string \<times> pyval) list"

definition contains :: "feature \<Rightarrow> string \<Rightarrow> bool" where
  \<comment> \<open>\<^verbatim>\<open>key in self\<close>\<close>
  "contains self key = (map_of self key \<noteq> None)"

definition setitem :: "feature_class \<Rightarrow> string \<Rightarrow> pyval \<Rightarrow> feature \<Rightarrow> error + feature" where
  \<comment> \<open>\<^verbatim>\<open>CaveFeature.__setitem__\<close>, features.py lines 45-52\<close>
  "setitem K key v self =
     (case argument_validators K key of
        None \<Rightarrow> Inl (InvalidArgument (NotValidOption key))
      | Some valid \<Rightarrow>
          if \<not> valid v then Inl (InvalidArgument (NotValidValue v key))
          else Inr (AList.update key v self))"

definition missing :: "feature_class \<Rightarrow> string \<Rightarrow> error + pyval" where
  \<comment> \<open>\<^verbatim>\<open>CaveFeature.__missing__\<close>: \<^verbatim>\<open>self.default_arguments[key]\<close>, a \<^verbatim>\<open>KeyError\<close> without default\<close>
  "missing K key =
     (case default_arguments K key of None \<Rightarrow> Inl (KeyError key) | Some d \<Rightarrow> Inr d)"

definition getitem :: "feature_class \<Rightarrow> string \<Rightarrow> feature \<Rightarrow> (error + pyval) \<times> feature" where
  \<comment> \<open>\<^verbatim>\<open>self[key]\<close>: \<^verbatim>\<open>dict.__getitem__\<close>, which calls \<^verbatim>\<open>__missing__\<close> for an absent key;
      the second component is the instance after the read.\<close>
  "getitem K key self =
     (case map_of self key of
        Some v \<Rightarrow> (Inr v, self)
      | None \<Rightarrow> (missing K key, self))"

definition get :: "feature_class \<Rightarrow> feature \<Rightarrow> string \<Rightarrow> error + pyval" where
  "get K self key = fst (getitem K key self)"

definition dict_get :: "feature \<Rightarrow> string \<Rightarrow> pyval \<Rightarrow> pyval" where
  \<comment> \<open>\<^verbatim>\<open>self.get(key, default)\<close>: \<^verbatim>\<open>dict.get\<close> does not call \<^verbatim>\<open>__missing__\<close>.\<close>
  "dict_get self key d = (case map_of self key of Some v \<Rightarrow> v | None \<Rightarrow> d)"

definition is_default :: "feature_class \<Rightarrow> feature \<Rightarrow> string \<Rightarrow> bool" where
  \<comment> \<open>\<^verbatim>\<open>CaveFeature.is_default\<close>, features.py lines 81-84\<close>
  "is_default K self key = (\<not> contains self key \<and> default_arguments K key \<noteq> None)"

definition CaveFeature_toXML :: "feature \<Rightarrow> xml \<Rightarrow> xml \<times> (error + xml)" where
  \<comment> \<open>features.py line 68\<close>
  "CaveFeature_toXML self parent_root =
     (parent_root, Inl (NotImplementedError ''toXML not defined for this feature''))"

definition CaveFeature_fromXML_func :: "param \<Rightarrow> param \<Rightarrow> error + (string \<times> feature)" where
  \<comment> \<open>the function of features.py lines 70-79, \<^verbatim>\<open>fromXML(feature_class, xml_root)\<close>\<close>
  "CaveFeature_fromXML_func feature_class xml_root =
     Inl (NotImplementedError ''fromXML not defined for this feature'')"

definition CaveFeature_fromXML :: "param list \<Rightarrow> error + (string \<times> feature)" where
  \<comment> \<open>the call \<^verbatim>\<open>CaveFeature.fromXML(...)\<close>\<close>
  "CaveFeature_fromXML args = classmethod2 ''CaveFeature'' CaveFeature_fromXML_func args"

section \<open>Code that is not under src/\<close>

text \<open>
  The modules \<^verbatim>\<open>xml_tools\<close>, \<^verbatim>\<open>placement\<close> and parts of \<^verbatim>\<open>validators\<close> are imported by
  the sources but are not part of them. What the sources call from there is taken as a
  parameter: \<open>bool2text\<close> and \<open>text2bool\<close>; the method call
  \<^verbatim>\<open>self["placement"].toXML(node)\<close> (given the stored value and the node, it yields the
  node as the call leaves it and the exception, if one is raised) and
  \<^verbatim>\<open>CavePlacement.fromXML\<close>; the validators \<^verbatim>\<open>ValidPyString()\<close> and \<^verbatim>\<open>ValidFile()\<close>.
  Two fields stand for conversions of the Python runtime between floats and text:
  \<open>repr_other\<close> is \<^verbatim>\<open>str\<close> on floats and containers, \<open>float_parse\<close> is \<^verbatim>\<open>float\<close> on a string
  (\<open>None\<close> for a \<^verbatim>\<open>ValueError\<close>).
\<close>

record ext =
  bool2text :: "pyval \<Rightarrow> error + pyval"
  text2bool :: "pyval \<Rightarrow> error + pyval"
  placement_toXML :: "pyval \<Rightarrow> xml \<Rightarrow> xml \<times> error option"
  placement_fromXML :: "xml \<Rightarrow> error + pyval"
  valid_pystring :: "pyval \<Rightarrow> bool"
  valid_file :: "pyval \<Rightarrow> bool"
  repr_other :: "pyval \<Rightarrow> string"
  float_parse :: "string \<Rightarrow> rat option"

subsection \<open>Validators\<close>

definition AlwaysValid :: "pyval \<Rightarrow> bool" where
  \<comment> \<open>Modelled from the spec: validators.py is not under src/; "AlwaysValid", section 3.\<close>
  "AlwaysValid v = True"

definition is_number :: "pyval \<Rightarrow> rat option" where
  "is_number v = (case v of PInt n \<Rightarrow> Some (of_int n) | PFloat r \<Rightarrow> Some r | _ \<Rightarrow> None)"

definition IsNumeric :: "rat option \<Rightarrow> rat option \<Rightarrow> pyval \<Rightarrow> bool" where
  \<comment> \<open>Modelled from the spec: validators.py is not under src/; "NumericInRange(min?, max?)",
      where a bound that is not supplied does not constrain (section 4.1).\<close>
  "IsNumeric min_value max_value v =
     (case is_number v of
        None \<Rightarrow> False
      | Some x \<Rightarrow>
          (case min_value of None \<Rightarrow> True | Some lo \<Rightarrow> lo \<le> x) \<and>
          (case max_value of None \<Rightarrow> True | Some hi \<Rightarrow> x \<le> hi))"

definition IsNumericIterable :: "nat \<Rightarrow> pyval \<Rightarrow> bool" where
  \<comment> \<open>Modelled from the spec: validators.py is not under src/;
      "NumericIterable(required_length?, element-numeric)", a length of 0 meaning
      unconstrained (section 4.1).\<close>
  "IsNumericIterable required_length v =
     (case v of
        PTuple xs \<Rightarrow> (\<forall>x \<in> set xs. is_number x \<noteq> None) \<and>
                     (required_length = 0 \<or> length xs = required_length)
      | PList xs \<Rightarrow> (\<forall>x \<in> set xs. is_number x \<noteq> None) \<and>
                    (required_length = 0 \<or> length xs = required_length)
      | _ \<Rightarrow> False)"

definition OptionListValidator :: "string list \<Rightarrow> pyval \<Rightarrow> bool" where
  \<comment> \<open>Modelled from the spec: validators.py is not under src/; "OptionFromSet(allowed
      values)". The same model serves pyw3d's \<^verbatim>\<open>OptionValidator\<close>, whose \<^verbatim>\<open>valid_options\<close>
      are the arguments in the order given.\<close>
  "OptionListValidator valid_options v = (v \<in> PStr ` set valid_options)"

definition IsBoolean :: "pyval \<Rightarrow> bool" where
  \<comment> \<open>Modelled from the spec: validators.py is not under src/; "BooleanValue".\<close>
  "IsBoolean v = (case v of PBool b \<Rightarrow> True | _ \<Rightarrow> False)"

subsection \<open>The builtins str, float and int\<close>

definition digit_char :: "nat \<Rightarrow> char" where
  "digit_char d = char_of (48 + d)"

function str_nat :: "nat \<Rightarrow> string" where
  "str_nat n = (if n < 10 then [digit_char n] else str_nat (n div 10) @ [digit_char (n mod 10)])"
  by pat_completeness auto
termination
  by (relation "measure id") auto

declare str_nat.simps [simp del]

definition str_int :: "int \<Rightarrow> string" where
  "str_int i = (if i < 0 then CHR ''-'' # str_nat (nat (- i)) else str_nat (nat i))"

definition py_str :: "ext \<Rightarrow> pyval \<Rightarrow> string" where
  \<comment> \<open>\<^verbatim>\<open>str(v)\<close>\<close>
  "py_str E v =
     (case v of
        PStr s \<Rightarrow> s
      | PInt n \<Rightarrow> str_int n
      | PBool b \<Rightarrow> (if b then ''True'' else ''False'')
      | PNone \<Rightarrow> ''None''
      | _ \<Rightarrow> repr_other E v)"

function bit_length :: "int \<Rightarrow> nat" where
  \<comment> \<open>\<^verbatim>\<open>n.bit_length()\<close>: the number of binary digits of \<open>\<bar>n\<bar>\<close>\<close>
  "bit_length n = (if n = 0 then 0 else Suc (bit_length (\<bar>n\<bar> div 2)))"
  by pat_completeness auto
termination
  by (relation "measure (\<lambda>n. nat \<bar>n\<bar>)") auto

declare bit_length.simps [simp del]

definition nearest_double :: "int \<Rightarrow> rat option" where
  \<comment> \<open>the double nearest to an integer, a tie going to the even significand of 53 bits;
      \<open>None\<close> is the \<^verbatim>\<open>OverflowError\<close> of a result of \<open>2^1024\<close> or more\<close>
  "nearest_double n =
     (let m = \<bar>n\<bar>;
          e = bit_length m - 53;
          q = m div 2 ^ e;
          r = m mod 2 ^ e;
          up = (2 ^ e < 2 * r \<or> (2 * r = 2 ^ e \<and> odd q));
          v = (if up then q + 1 else q) * 2 ^ e
      in if 2 ^ 1024 \<le> v then None
         else Some (of_int (if n < 0 then - v else v)))"

definition float_of_int :: "int \<Rightarrow> rat option" where
  \<comment> \<open>\<^verbatim>\<open>float(n)\<close> for an integer: the integer itself up to \<open>2^53\<close>, where every integer is
      a double, and the nearest double beyond\<close>
  "float_of_int n = (if \<bar>n\<bar> \<le> 2 ^ 53 then Some (of_int n) else nearest_double n)"

definition py_float :: "ext \<Rightarrow> pyval \<Rightarrow> error + pyval" where
  \<comment> \<open>\<^verbatim>\<open>float(v)\<close>\<close>
  "py_float E v =
     (case v of
        PFloat r \<Rightarrow> Inr (PFloat r)
      | PBool b \<Rightarrow> Inr (PFloat (if b then 1 else 0))
      | PInt n \<Rightarrow> (case float_of_int n of None \<Rightarrow> Inl OverflowError | Some r \<Rightarrow> Inr (PFloat r))
      | PStr s \<Rightarrow> (case float_parse E s of None \<Rightarrow> Inl ValueError | Some r \<Rightarrow> Inr (PFloat r))
      | _ \<Rightarrow> Inl TypeError)"

definition is_space :: "char \<Rightarrow> bool" where
  \<comment> \<open>the ASCII characters \<^verbatim>\<open>str.strip()\<close> removes: tab to carriage return, the four
      separators 28 to 31 and the blank\<close>
  "is_space c = (let n = (of_char c :: nat) in (9 \<le> n \<and> n \<le> 13) \<or> (28 \<le> n \<and> n \<le> 32))"

definition py_strip :: "string \<Rightarrow> string" where
  "py_strip s = rev (dropWhile is_space (rev (dropWhile is_space s)))"

definition is_digit :: "char \<Rightarrow> bool" where
  "is_digit c = (let n = (of_char c :: nat) in 48 \<le> n \<and> n \<le> 57)"

fun nat_of_digits :: "nat \<Rightarrow> string \<Rightarrow> nat option" where
  "nat_of_digits acc [] = Some acc"
| "nat_of_digits acc (c # cs) =
     (if is_digit c then nat_of_digits (10 * acc + (of_char c - 48)) cs else None)"

fun strip_underscores :: "string \<Rightarrow> string option" where
  \<comment> \<open>a single underscore may stand between two digits (Python 3.6 and later); \<open>None\<close> when
      one stands first, last or next to another\<close>
  "strip_underscores [] = Some []"
| "strip_underscores [c] = (if c = CHR ''_'' then None else Some [c])"
| "strip_underscores (c # d # cs) =
     (if c = CHR ''_'' then None
      else if d = CHR ''_'' then
        (case cs of
           [] \<Rightarrow> None
         | e # es \<Rightarrow>
             if e = CHR ''_'' then None
             else map_option ((#) c) (strip_underscores (e # es)))
      else map_option ((#) c) (strip_underscores (d # cs)))"

definition parse_nat :: "string \<Rightarrow> nat option" where
  "parse_nat s =
     (if s = [] then None
      else case strip_underscores s of None \<Rightarrow> None | Some ds \<Rightarrow> nat_of_digits 0 ds)"

definition py_int_of_str :: "string \<Rightarrow> error + pyval" where
  \<comment> \<open>\<^verbatim>\<open>int(s)\<close> for a string: surrounding whitespace, an optional sign, decimal digits
      with single underscores between them. Digits beyond ASCII are read as a
      \<^verbatim>\<open>ValueError\<close>.\<close>
  "py_int_of_str s =
     (case py_strip s of
        [] \<Rightarrow> Inl ValueError
      | c # cs \<Rightarrow>
          if c = CHR ''-'' then
            (case parse_nat cs of None \<Rightarrow> Inl ValueError | Some n \<Rightarrow> Inr (PInt (- int n)))
          else if c = CHR ''+'' then
            (case parse_nat cs of None \<Rightarrow> Inl ValueError | Some n \<Rightarrow> Inr (PInt (int n)))
          else
            (case parse_nat (c # cs) of None \<Rightarrow> Inl ValueError | Some n \<Rightarrow> Inr (PInt (int n))))"

definition py_iter :: "pyval \<Rightarrow> error + pyval list" where
  \<comment> \<open>the items \<^verbatim>\<open>*v\<close> unpacks: a string yields its characters, a dictionary its keys\<close>
  "py_iter v =
     (case v of
        PTuple xs \<Rightarrow> Inr xs
      | PList xs \<Rightarrow> Inr xs
      | PStr s \<Rightarrow> Inr (map (\<lambda>c. PStr [c]) s)
      | PDict kvs \<Rightarrow> Inr (map (\<lambda>kv. PStr (fst kv)) kvs)
      | _ \<Rightarrow> Inl TypeError)"

definition bind_err :: "error + 'a \<Rightarrow> ('a \<Rightarrow> error + 'b) \<Rightarrow> error + 'b" where
  \<comment> \<open>sequencing: an exception of the first statement skips the rest\<close>
  "bind_err m f = (case m of Inl e \<Rightarrow> Inl e | Inr x \<Rightarrow> f x)"

section \<open>actions.py\<close>

text \<open>
  Every parser of actions.py is declared \<^verbatim>\<open>@classmethod\<close> with a single parameter, which
  its body uses as the document node (\<^verbatim>\<open>action_root.tag\<close>, \<^verbatim>\<open>action_root.attrib\<close>). The
  class takes that parameter, so the call with a node has one argument too many. Each
  parser is embedded twice: \<open>..._func\<close> is the function as written, of whatever its
  parameter holds, and the name without suffix is the call \<^verbatim>\<open>Class.fromXML(...)\<close> with its
  list of arguments. \<^verbatim>\<open>W3DSound.fromXML(sound_class, sound_root)\<close> of sounds.py has both
  parameters.
\<close>

definition ObjectAction_class :: feature_class where
  \<comment> \<open>actions.py lines 62-77\<close>
  "ObjectAction_class =
     \<lparr> argument_validators = map_of
         [(''object_name'', AlwaysValid),
          (''duration'', IsNumeric (Some 0) None),
          (''visible'', AlwaysValid),
          (''placement'', AlwaysValid),
          (''move_relative'', AlwaysValid),
          (''color'', IsNumericIterable 3),
          (''scale'', IsNumeric (Some 0) None),
          (''sound_change'', OptionListValidator [''Play Sound'', ''Stop Sound'']),
          (''link_change'', OptionListValidator
             [''Enable'', ''Disable'', ''Activate'', ''Activate if enabled''])],
       default_arguments = map_of [(''duration'', PInt 1)] \<rparr>"

text \<open>
  \<^verbatim>\<open>toXML\<close> appends to the tree while it runs, and an exception leaves what was appended
  so far. The children of the \<^verbatim>\<open>Transition\<close> node are built by steps; a step maps the
  children so far to the children after it and the exception it raised, if any.
\<close>

type_synonym build = "xml list \<times> error option"

definition then_step :: "build \<Rightarrow> (xml list \<Rightarrow> build) \<Rightarrow> build" where
  "then_step b f = (case b of (cs, None) \<Rightarrow> f cs | (cs, Some e) \<Rightarrow> (cs, Some e))"

definition toXML_visible :: "ext \<Rightarrow> feature \<Rightarrow> xml list \<Rightarrow> build" where
  \<comment> \<open>lines 90-92\<close>
  "toXML_visible E self cs =
     (case map_of self ''visible'' of
        None \<Rightarrow> (cs, None)
      | Some v \<Rightarrow>
          (case bool2text E v of
             Inl e \<Rightarrow> (cs @ [Element ''Visible'' [] PNone []], Some e)
           | Inr t \<Rightarrow> (cs @ [Element ''Visible'' [] t []], None)))"

definition toXML_placement :: "ext \<Rightarrow> feature \<Rightarrow> xml list \<Rightarrow> build" where
  \<comment> \<open>lines 93-98\<close>
  "toXML_placement E self cs =
     (case map_of self ''placement'' of
        None \<Rightarrow> (cs, None)
      | Some p \<Rightarrow>
          (case get ObjectAction_class self ''move_relative'' of
             Inl e \<Rightarrow> (cs, Some e)
           | Inr mr \<Rightarrow>
               (case placement_toXML E p
                       (Element (if py_truthy mr then ''MoveRel'' else ''Movement'') [] PNone [])
                of (node, err) \<Rightarrow> (cs @ [node], err))))"

definition format3 :: "ext \<Rightarrow> pyval \<Rightarrow> error + string" where
  \<comment> \<open>\<^verbatim>\<open>"{},{},{}".format(*v)\<close>: items beyond the third are ignored, fewer than three are an
      \<^verbatim>\<open>IndexError\<close>\<close>
  "format3 E v =
     (case py_iter v of
        Inl e \<Rightarrow> Inl e
      | Inr (a # b # c # rest) \<Rightarrow> Inr (py_str E a @ '','' @ py_str E b @ '','' @ py_str E c)
      | Inr _ \<Rightarrow> Inl IndexError)"

definition toXML_color :: "ext \<Rightarrow> feature \<Rightarrow> xml list \<Rightarrow> build" where
  \<comment> \<open>lines 99-101\<close>
  "toXML_color E self cs =
     (case map_of self ''color'' of
        None \<Rightarrow> (cs, None)
      | Some v \<Rightarrow>
          (case format3 E v of
             Inl e \<Rightarrow> (cs @ [Element ''Color'' [] PNone []], Some e)
           | Inr t \<Rightarrow> (cs @ [Element ''Color'' [] (PStr t) []], None)))"

definition toXML_scale :: "ext \<Rightarrow> feature \<Rightarrow> xml list \<Rightarrow> build" where
  \<comment> \<open>lines 102-104\<close>
  "toXML_scale E self cs =
     (case map_of self ''scale'' of
        None \<Rightarrow> (cs, None)
      | Some v \<Rightarrow> (cs @ [Element ''Scale'' [] (PStr (py_str E v)) []], None))"

definition toXML_sound_change :: "feature \<Rightarrow> xml list \<Rightarrow> build" where
  \<comment> \<open>lines 105-107: \<^verbatim>\<open>attrib={"action", self["sound_change"]}\<close> is a set, which
      \<^verbatim>\<open>ET.SubElement\<close> refuses with a \<^verbatim>\<open>TypeError\<close> before it creates the node\<close>
  "toXML_sound_change self cs =
     (case map_of self ''sound_change'' of
        None \<Rightarrow> (cs, None)
      | Some v \<Rightarrow> (cs, Some TypeError))"

definition toXML_link_change :: "feature \<Rightarrow> xml list \<Rightarrow> build" where
  \<comment> \<open>lines 108-117\<close>
  "toXML_link_change self cs =
     (case map_of self ''link_change'' of
        None \<Rightarrow> (cs, None)
      | Some v \<Rightarrow>
          (cs @ [Element ''LinkChange'' [] PNone
                  (if v = PStr ''Enable'' then [Element ''link_on'' [] PNone []]
                   else if v = PStr ''Disable'' then [Element ''link_off'' [] PNone []]
                   else if v = PStr ''Activate'' then [Element ''activate'' [] PNone []]
                   else if v = PStr ''Activate if enabled'' then [Element ''activate_if_on'' [] PNone []]
                   else [])],
           None))"

definition toXML_transition :: "ext \<Rightarrow> feature \<Rightarrow> build" where
  \<comment> \<open>lines 90-117, from the empty \<^verbatim>\<open>Transition\<close> node\<close>
  "toXML_transition E self =
     then_step (then_step (then_step (then_step (then_step
       (toXML_visible E self [])
       (toXML_placement E self))
       (toXML_color E self))
       (toXML_scale E self))
       (toXML_sound_change self))
       (toXML_link_change self)"

definition ObjectAction_toXML :: "ext \<Rightarrow> feature \<Rightarrow> xml \<Rightarrow> xml \<times> (error + xml)" where
  \<comment> \<open>\<^verbatim>\<open>ObjectAction.toXML\<close>, lines 79-118: the parent as the call leaves it, and the
      returned \<^verbatim>\<open>ObjectChange\<close> node or the exception\<close>
  "ObjectAction_toXML E self parent_root =
     (case get ObjectAction_class self ''object_name'' of
        Inl e \<Rightarrow> (parent_root, Inl e)
      | Inr name \<Rightarrow>
          (case get ObjectAction_class self ''duration'' of
             Inl e \<Rightarrow>
               (SubElement parent_root (Element ''ObjectChange'' [(''name'', name)] PNone []),
                Inl e)
           | Inr duration \<Rightarrow>
               (case toXML_transition E self of
                  (cs, err) \<Rightarrow>
                    (let change_root =
                       Element ''ObjectChange'' [(''name'', name)] PNone
                         [Element ''Transition'' [(''duration'', duration)] PNone cs]
                     in (SubElement parent_root change_root,
                         case err of None \<Rightarrow> Inr change_root | Some e \<Rightarrow> Inl e)))))"

definition fromXML_duration :: "ext \<Rightarrow> xml \<Rightarrow> feature \<Rightarrow> error + feature" where
  \<comment> \<open>lines 132-133\<close>
  "fromXML_duration E trans_root new_action =
     (case map_of (el_attrib trans_root) ''duration'' of
        None \<Rightarrow> Inr new_action
      | Some d \<Rightarrow>
          bind_err (py_float E d) (\<lambda>f. setitem ObjectAction_class ''duration'' f new_action))"

definition fromXML_visible :: "ext \<Rightarrow> xml \<Rightarrow> feature \<Rightarrow> error + feature" where
  \<comment> \<open>lines 134-136\<close>
  "fromXML_visible E trans_root new_action =
     (case find_child trans_root ''Visible'' of
        None \<Rightarrow> Inr new_action
      | Some node \<Rightarrow>
          bind_err (text2bool E (el_text node))
            (\<lambda>b. setitem ObjectAction_class ''visible'' b new_action))"

definition fromXML_movement :: "ext \<Rightarrow> xml \<Rightarrow> feature \<Rightarrow> error + feature" where
  \<comment> \<open>lines 137-149\<close>
  "fromXML_movement E trans_root new_action =
     bind_err
       (case find_child trans_root ''MoveRel'' of
          Some node \<Rightarrow>
            bind_err (setitem ObjectAction_class ''move_relative'' (PBool True) new_action)
              (\<lambda>a. Inr (a, Some node))
        | None \<Rightarrow> Inr (new_action, find_child trans_root ''Movement''))
       (\<lambda>(a, found).
          case found of
            None \<Rightarrow> Inr a
          | Some node \<Rightarrow>
              bind_err (setitem ObjectAction_class ''move_relative''
                          (dict_get a ''move_relative'' (PBool False)) a)
                (\<lambda>a'.
                   case find_child node ''Placement'' of
                     None \<Rightarrow>
                       Inl (BadCaveXML ''Movement or MoveRel node requires Placement child node'')
                   | Some place_root \<Rightarrow>
                       bind_err (placement_fromXML E place_root)
                         (\<lambda>p. setitem ObjectAction_class ''placement'' p a')))"

definition ObjectAction_fromXML_func :: "ext \<Rightarrow> param \<Rightarrow> error + feature" where
  \<comment> \<open>the function of lines 120-151, \<^verbatim>\<open>fromXML(action_root)\<close>. A class has no \<^verbatim>\<open>attrib\<close>: an
      \<^verbatim>\<open>AttributeError\<close>, which the \<^verbatim>\<open>except KeyError\<close> of line 129 lets through. A node
      without \<^verbatim>\<open>Transition\<close> child makes \<^verbatim>\<open>trans_root\<close> \<^verbatim>\<open>None\<close>, whose \<^verbatim>\<open>.attrib\<close> is an
      \<^verbatim>\<open>AttributeError\<close> too.\<close>
  "ObjectAction_fromXML_func E action_root =
     (case action_root of
        Class c \<Rightarrow> Inl AttributeError
      | Node node \<Rightarrow>
          (case map_of (el_attrib node) ''name'' of
             None \<Rightarrow> Inl (BadCaveXML ''ObjectChange node must have name attribute set'')
           | Some name \<Rightarrow>
               bind_err (setitem ObjectAction_class ''object_name'' name [])
                 (\<lambda>a1.
                    case find_child node ''Transition'' of
                      None \<Rightarrow> Inl AttributeError
                    | Some trans_root \<Rightarrow>
                        bind_err (fromXML_duration E trans_root a1)
                          (\<lambda>a2. bind_err (fromXML_visible E trans_root a2)
                             (fromXML_movement E trans_root)))))"

definition ObjectAction_fromXML :: "ext \<Rightarrow> param list \<Rightarrow> error + feature" where
  \<comment> \<open>the call \<^verbatim>\<open>ObjectAction.fromXML(...)\<close>, lines 120-121\<close>
  "ObjectAction_fromXML E args = classmethod1 ''ObjectAction'' (ObjectAction_fromXML_func E) args"

definition GroupAction_fromXML_func :: "param \<Rightarrow> error + (string \<times> feature)" where
  \<comment> \<open>line 207\<close>
  "GroupAction_fromXML_func groupref_root = CaveFeature_fromXML [groupref_root]"

definition GroupAction_fromXML :: "param list \<Rightarrow> error + (string \<times> feature)" where
  \<comment> \<open>the call \<^verbatim>\<open>GroupAction.fromXML(...)\<close>, lines 201-202\<close>
  "GroupAction_fromXML args = classmethod1 ''GroupAction'' GroupAction_fromXML_func args"

definition TimelineAction_fromXML_func :: "param \<Rightarrow> error + (string \<times> feature)" where
  \<comment> \<open>line 244\<close>
  "TimelineAction_fromXML_func timer_change_root = CaveFeature_fromXML [timer_change_root]"

definition TimelineAction_fromXML :: "param list \<Rightarrow> error + (string \<times> feature)" where
  \<comment> \<open>the call \<^verbatim>\<open>TimelineAction.fromXML(...)\<close>, lines 238-239\<close>
  "TimelineAction_fromXML args =
     classmethod1 ''TimelineAction'' TimelineAction_fromXML_func args"

definition SoundAction_fromXML_func :: "param \<Rightarrow> error + (string \<times> feature)" where
  \<comment> \<open>line 279\<close>
  "SoundAction_fromXML_func soundref_root = CaveFeature_fromXML [soundref_root]"

definition SoundAction_fromXML :: "param list \<Rightarrow> error + (string \<times> feature)" where
  \<comment> \<open>the call \<^verbatim>\<open>SoundAction.fromXML(...)\<close>, lines 273-274\<close>
  "SoundAction_fromXML args = classmethod1 ''SoundAction'' SoundAction_fromXML_func args"

definition EventTriggerAction_fromXML_func :: "param \<Rightarrow> error + (string \<times> feature)" where
  \<comment> \<open>line 313\<close>
  "EventTriggerAction_fromXML_func event_root = CaveFeature_fromXML [event_root]"

definition EventTriggerAction_fromXML :: "param list \<Rightarrow> error + (string \<times> feature)" where
  \<comment> \<open>the call \<^verbatim>\<open>EventTriggerAction.fromXML(...)\<close>, lines 307-308\<close>
  "EventTriggerAction_fromXML args =
     classmethod1 ''EventTriggerAction'' EventTriggerAction_fromXML_func args"

definition MoveCaveAction_fromXML_func :: "param \<Rightarrow> error + (string \<times> feature)" where
  \<comment> \<open>line 352\<close>
  "MoveCaveAction_fromXML_func move_cave_root = CaveFeature_fromXML [move_cave_root]"

definition MoveCaveAction_fromXML :: "param list \<Rightarrow> error + (string \<times> feature)" where
  \<comment> \<open>the call \<^verbatim>\<open>MoveCaveAction.fromXML(...)\<close>, lines 346-347\<close>
  "MoveCaveAction_fromXML args =
     classmethod1 ''MoveCaveAction'' MoveCaveAction_fromXML_func args"

definition CaveResetAction_fromXML_func :: "param \<Rightarrow> error + (string \<times> feature)" where
  \<comment> \<open>line 377\<close>
  "CaveResetAction_fromXML_func restart_root = CaveFeature_fromXML [restart_root]"

definition CaveResetAction_fromXML :: "param list \<Rightarrow> error + (string \<times> feature)" where
  \<comment> \<open>the call \<^verbatim>\<open>CaveResetAction.fromXML(...)\<close>, lines 371-372\<close>
  "CaveResetAction_fromXML args =
     classmethod1 ''CaveResetAction'' CaveResetAction_fromXML_func args"

definition CaveAction_fromXML_func :: "ext \<Rightarrow> param \<Rightarrow> error + (string \<times> feature)" where
  \<comment> \<open>the function of lines 21-43, \<^verbatim>\<open>fromXML(action_root)\<close>: the class of the instance and
      the instance. A class has no \<^verbatim>\<open>tag\<close>: an \<^verbatim>\<open>AttributeError\<close>.\<close>
  "CaveAction_fromXML_func E action_root =
     (case action_root of
        Class c \<Rightarrow> Inl AttributeError
      | Node node \<Rightarrow>
          if el_tag node = ''ObjectChange'' then
            bind_err (ObjectAction_fromXML E [action_root]) (\<lambda>a. Inr (''ObjectAction'', a))
          else if el_tag node = ''GroupRef'' then GroupAction_fromXML [action_root]
          else if el_tag node = ''TimerChange'' then TimelineAction_fromXML [action_root]
          else if el_tag node = ''SoundRef'' then SoundAction_fromXML [action_root]
          else if el_tag node = ''Event'' then EventTriggerAction_fromXML [action_root]
          else if el_tag node = ''MoveCave'' then MoveCaveAction_fromXML [action_root]
          else if el_tag node = ''Restart'' then CaveResetAction_fromXML [action_root]
          else Inl (BadCaveXML
                 (''Indicated action '' @ el_tag node @ '' is not a valid action type'')))"

definition CaveAction_fromXML :: "ext \<Rightarrow> param list \<Rightarrow> error + (string \<times> feature)" where
  \<comment> \<open>the call \<^verbatim>\<open>CaveAction.fromXML(...)\<close>, lines 21-22\<close>
  "CaveAction_fromXML E args = classmethod1 ''CaveAction'' (CaveAction_fromXML_func E) args"

section \<open>sounds.py\<close>

text \<open>
  \<^verbatim>\<open>W3DSound\<close> derives from \<^verbatim>\<open>W3DFeature\<close> of pyw3d/features.py, which is not under src/.
  The three operations of the base class that sounds.py uses are those the specification
  gives every feature, which are the ones \<^verbatim>\<open>CaveFeature\<close> implements.
\<close>

definition W3DFeature_get :: "feature_class \<Rightarrow> feature \<Rightarrow> string \<Rightarrow> error + pyval" where
  \<comment> \<open>Modelled from the spec: \<^verbatim>\<open>W3DFeature\<close> (pyw3d/features.py) is not under src/;
      section 4.2, "get(name): returns stored value if present; else defaults[name] if
      present; else fails with MissingAttribute".\<close>
  "W3DFeature_get = get"

definition W3DFeature_setitem ::
  "feature_class \<Rightarrow> string \<Rightarrow> pyval \<Rightarrow> feature \<Rightarrow> error + feature" where
  \<comment> \<open>Modelled from the spec: \<^verbatim>\<open>W3DFeature\<close> (pyw3d/features.py) is not under src/;
      section 4.2, "set(name, value): fails with InvalidAttribute if name not in schema;
      fails with InvalidValue if schema[name].validate(value) is false; otherwise commits
      the write".\<close>
  "W3DFeature_setitem = setitem"

definition W3DFeature_is_default :: "feature_class \<Rightarrow> feature \<Rightarrow> string \<Rightarrow> bool" where
  \<comment> \<open>Modelled from the spec: \<^verbatim>\<open>W3DFeature\<close> (pyw3d/features.py) is not under src/;
      section 4.2, "is_default(name): true iff absent from storage AND a default exists for
      it".\<close>
  "W3DFeature_is_default = is_default"

definition movement_modes :: "string list" where
  \<comment> \<open>\<^verbatim>\<open>argument_validators["movement_mode"].valid_options\<close>\<close>
  "movement_modes = [''Positional'', ''Fixed'']"

definition W3DSound_class :: "ext \<Rightarrow> feature_class" where
  \<comment> \<open>sounds.py lines 83-99\<close>
  "W3DSound_class E =
     \<lparr> argument_validators = map_of
         [(''name'', valid_pystring E),
          (''filename'', valid_file E),
          (''autostart'', IsBoolean),
          (''movement_mode'', OptionListValidator movement_modes),
          (''repetitions'', IsNumeric None None),
          (''frequency_scale'', IsNumeric (Some (1 / 2)) (Some 2)),
          (''volume_scale'', IsNumeric (Some 0) (Some 2)),
          (''pan'', IsNumeric (Some (- 1)) (Some 1))],
       default_arguments = map_of
         [(''autostart'', PBool False),
          (''movement_mode'', PStr ''Positional''),
          (''repetitions'', PInt 0),
          (''frequency_scale'', PInt 1),
          (''volume_scale'', PInt 1),
          (''pan'', PInt 0)] \<rparr>"

definition must_set :: "string \<Rightarrow> string" where
  \<comment> \<open>the message \<^verbatim>\<open>W3DSound must set a value for "key" key\<close>; \<open>CHR 0x22\<close> is the double quote\<close>
  "must_set key = ''W3DSound must set a value for '' @ [CHR 0x22] @ key @ [CHR 0x22] @ '' key''"

definition sound_attrib :: "ext \<Rightarrow> feature \<Rightarrow> error + (string \<times> pyval) list" where
  \<comment> \<open>lines 106-118: the attributes of the \<^verbatim>\<open>Sound\<close> node\<close>
  "sound_attrib E self =
     (case W3DFeature_get (W3DSound_class E) self ''name'' of
        Inl (KeyError k) \<Rightarrow> Inl (ConsistencyError (must_set ''name''))
      | Inl e \<Rightarrow> Inl e
      | Inr name \<Rightarrow>
          (case W3DFeature_get (W3DSound_class E) self ''filename'' of
             Inl (KeyError k) \<Rightarrow>
               Inl (ConsistencyError (must_set ''filename''))
           | Inl e \<Rightarrow> Inl e
           | Inr filename \<Rightarrow>
               (let attrib = [(''name'', PStr (py_str E name)),
                              (''filename'', PStr (py_str E filename))]
                in if \<not> W3DFeature_is_default (W3DSound_class E) self ''autostart'' then
                     bind_err (W3DFeature_get (W3DSound_class E) self ''autostart'')
                       (\<lambda>v. bind_err (bool2text E v)
                          (\<lambda>t. Inr (AList.update ''autostart'' t attrib)))
                   else Inr attrib)))"

definition toXML_mode :: "ext \<Rightarrow> feature \<Rightarrow> xml list \<Rightarrow> build" where
  \<comment> \<open>lines 121-122. Tags are strings here; a stored mode that is not a string cannot pass
      the validator of \<^verbatim>\<open>movement_mode\<close>, and is a \<^verbatim>\<open>TypeError\<close> in this model.\<close>
  "toXML_mode E self cs =
     (case W3DFeature_get (W3DSound_class E) self ''movement_mode'' of
        Inl e \<Rightarrow> (cs @ [Element ''Mode'' [] PNone []], Some e)
      | Inr (PStr mode) \<Rightarrow>
          (cs @ [Element ''Mode'' [] PNone [Element mode [] PNone []]], None)
      | Inr _ \<Rightarrow> (cs @ [Element ''Mode'' [] PNone []], Some TypeError))"

definition repeat_children :: "ext \<Rightarrow> pyval \<Rightarrow> build" where
  \<comment> \<open>lines 125-131: three independent tests on \<^verbatim>\<open>self["repetitions"]\<close>, appending to the
      \<^verbatim>\<open>Repeat\<close> node\<close>
  "repeat_children E r =
     (let cs1 = (if py_eq_num r 0 then [Element ''NoRepeat'' [] PNone []] else [])
      in case py_lt_num r 0 of
           Inl e \<Rightarrow> (cs1, Some e)
         | Inr neg \<Rightarrow>
             (let cs2 = cs1 @ (if neg then [Element ''RepeatForever'' [] PNone []] else [])
              in case py_gt_num r 0 of
                   Inl e \<Rightarrow> (cs2, Some e)
                 | Inr pos \<Rightarrow>
                     (cs2 @ (if pos then [Element ''RepeatNum'' [] (PStr (py_str E r)) []]
                             else []),
                      None)))"

definition toXML_repeat :: "ext \<Rightarrow> feature \<Rightarrow> xml list \<Rightarrow> build" where
  \<comment> \<open>lines 124-131\<close>
  "toXML_repeat E self cs =
     (case W3DFeature_get (W3DSound_class E) self ''repetitions'' of
        Inl e \<Rightarrow> (cs @ [Element ''Repeat'' [] PNone []], Some e)
      | Inr r \<Rightarrow>
          (case repeat_children E r of
             (rs, err) \<Rightarrow> (cs @ [Element ''Repeat'' [] PNone rs], err)))"

definition attrib_map :: "(string \<times> string) list" where
  \<comment> \<open>lines 134-135\<close>
  "attrib_map = [(''frequency_scale'', ''freq''), (''volume_scale'', ''volume''), (''pan'', ''pan'')]"

fun sound_settings ::
  "ext \<Rightarrow> feature \<Rightarrow> (string \<times> string) list \<Rightarrow> (string \<times> pyval) list
     \<Rightarrow> error + (string \<times> pyval) list" where
  \<comment> \<open>the loop of lines 136-138\<close>
  "sound_settings E self [] settings = Inr settings"
| "sound_settings E self ((key, xml_attrib) # rest) settings =
     (if \<not> W3DFeature_is_default (W3DSound_class E) self key then
        bind_err (W3DFeature_get (W3DSound_class E) self key)
          (\<lambda>v. sound_settings E self rest
                  (AList.update xml_attrib (PStr (py_str E v)) settings))
      else sound_settings E self rest settings)"

definition toXML_settings :: "ext \<Rightarrow> feature \<Rightarrow> xml list \<Rightarrow> build" where
  \<comment> \<open>lines 133-139\<close>
  "toXML_settings E self cs =
     (case sound_settings E self attrib_map [] of
        Inl e \<Rightarrow> (cs, Some e)
      | Inr settings \<Rightarrow> (cs @ [Element ''Settings'' settings PNone []], None))"

definition W3DSound_toXML :: "ext \<Rightarrow> feature \<Rightarrow> xml \<Rightarrow> xml \<times> (error + xml)" where
  \<comment> \<open>\<^verbatim>\<open>W3DSound.toXML\<close>, lines 101-141\<close>
  "W3DSound_toXML E self all_sounds_root =
     (case sound_attrib E self of
        Inl e \<Rightarrow> (all_sounds_root, Inl e)
      | Inr attrib \<Rightarrow>
          (case then_step (then_step (toXML_mode E self []) (toXML_repeat E self))
                  (toXML_settings E self)
           of (cs, err) \<Rightarrow>
             (let sound_root = Element ''Sound'' attrib PNone cs
              in (SubElement all_sounds_root sound_root,
                  case err of None \<Rightarrow> Inr sound_root | Some e \<Rightarrow> Inl e))))"

definition fromXML_name :: "ext \<Rightarrow> xml \<Rightarrow> feature \<Rightarrow> error + feature" where
  \<comment> \<open>lines 150-159\<close>
  "fromXML_name E sound_root new_sound =
     (case map_of (el_attrib sound_root) ''name'' of
        None \<Rightarrow> Inl (BadW3DXML ''Sound node must specify name attribute'')
      | Some name \<Rightarrow>
          bind_err (W3DFeature_setitem (W3DSound_class E) ''name'' name new_sound)
            (\<lambda>a. case map_of (el_attrib sound_root) ''filename'' of
                    None \<Rightarrow> Inl (BadW3DXML ''Sound node must specify filename attribute'')
                  | Some filename \<Rightarrow> W3DFeature_setitem (W3DSound_class E) ''filename'' filename a))"

definition fromXML_autostart :: "ext \<Rightarrow> xml \<Rightarrow> feature \<Rightarrow> error + feature" where
  \<comment> \<open>lines 160-161\<close>
  "fromXML_autostart E sound_root new_sound =
     (case map_of (el_attrib sound_root) ''autostart'' of
        None \<Rightarrow> Inr new_sound
      | Some t \<Rightarrow>
          bind_err (text2bool E t) (\<lambda>b. W3DFeature_setitem (W3DSound_class E) ''autostart'' b new_sound))"

fun first_mode :: "xml \<Rightarrow> string list \<Rightarrow> string option" where
  \<comment> \<open>the loop of lines 167-171: the first valid option that is a child of the \<^verbatim>\<open>Mode\<close> node\<close>
  "first_mode movement_node [] = None"
| "first_mode movement_node (mode # rest) =
     (if find_child movement_node mode \<noteq> None then Some mode
      else first_mode movement_node rest)"

definition fromXML_mode :: "ext \<Rightarrow> xml \<Rightarrow> feature \<Rightarrow> error + feature" where
  \<comment> \<open>lines 163-175\<close>
  "fromXML_mode E sound_root new_sound =
     (case find_child sound_root ''Mode'' of
        None \<Rightarrow> Inl (BadW3DXML ''Sound node must contain Mode child node'')
      | Some movement_node \<Rightarrow>
          bind_err
            (case first_mode movement_node movement_modes of
               None \<Rightarrow> Inr new_sound
             | Some mode \<Rightarrow> W3DFeature_setitem (W3DSound_class E) ''movement_mode'' (PStr mode) new_sound)
            (\<lambda>a. if \<not> contains a ''movement_mode'' then
                    Inl (BadW3DXML ''Mode node must contain child node specifying a valid mode'')
                  else Inr a))"

definition repeat_num :: "xml option \<Rightarrow> error + pyval" where
  \<comment> \<open>lines 186-192: \<^verbatim>\<open>int(repeat_node.text.strip())\<close>, where a missing node or a text that
      is not a string is the \<^verbatim>\<open>AttributeError\<close> turned into \<^verbatim>\<open>BadW3DXML\<close>\<close>
  "repeat_num repeat_node =
     (case repeat_node of
        Some (Element t a (PStr s) cs) \<Rightarrow> py_int_of_str (py_strip s)
      | _ \<Rightarrow> Inl (BadW3DXML ''Repeat node must contain child node specifying repetitions''))"

definition fromXML_repeat :: "ext \<Rightarrow> xml \<Rightarrow> feature \<Rightarrow> error + feature" where
  \<comment> \<open>lines 177-192\<close>
  "fromXML_repeat E sound_root new_sound =
     (case find_child sound_root ''Repeat'' of
        None \<Rightarrow> Inl (BadW3DXML ''Sound node must contain Repeat child node'')
      | Some repeat_node \<Rightarrow>
          if find_child repeat_node ''NoRepeat'' \<noteq> None then
            W3DFeature_setitem (W3DSound_class E) ''repetitions'' (PInt 0) new_sound
          else if find_child repeat_node ''RepeatForever'' \<noteq> None then
            W3DFeature_setitem (W3DSound_class E) ''repetitions'' (PInt (- 1)) new_sound
          else
            bind_err (repeat_num (find_child repeat_node ''RepeatNum''))
              (\<lambda>n. W3DFeature_setitem (W3DSound_class E) ''repetitions'' n new_sound))"

definition xml_map :: "(string \<times> string) list" where
  \<comment> \<open>lines 198-199\<close>
  "xml_map = [(''freq'', ''frequency_scale''), (''volume'', ''volume_scale''), (''pan'', ''pan'')]"

fun read_settings ::
  "ext \<Rightarrow> xml \<Rightarrow> (string \<times> string) list \<Rightarrow> feature \<Rightarrow> error + feature" where
  \<comment> \<open>the loop of lines 200-202\<close>
  "read_settings E settings_node [] new_sound = Inr new_sound"
| "read_settings E settings_node ((key, attr) # rest) new_sound =
     (case map_of (el_attrib settings_node) key of
        None \<Rightarrow> read_settings E settings_node rest new_sound
      | Some t \<Rightarrow>
          bind_err (py_float E t)
            (\<lambda>f. bind_err (W3DFeature_setitem (W3DSound_class E) attr f new_sound)
                    (read_settings E settings_node rest)))"

definition fromXML_settings :: "ext \<Rightarrow> xml \<Rightarrow> feature \<Rightarrow> error + feature" where
  \<comment> \<open>lines 194-202\<close>
  "fromXML_settings E sound_root new_sound =
     (case find_child sound_root ''Settings'' of
        None \<Rightarrow> Inl (BadW3DXML ''Sound node must have Settings child node'')
      | Some settings_node \<Rightarrow> read_settings E settings_node xml_map new_sound)"

definition W3DSound_fromXML :: "ext \<Rightarrow> xml \<Rightarrow> error + feature" where
  \<comment> \<open>\<^verbatim>\<open>W3DSound.fromXML\<close>, lines 143-204\<close>
  "W3DSound_fromXML E sound_root =
     bind_err (fromXML_name E sound_root [])
       (\<lambda>a1. bind_err (fromXML_autostart E sound_root a1)
          (\<lambda>a2. bind_err (fromXML_mode E sound_root a2)
             (\<lambda>a3. bind_err (fromXML_repeat E sound_root a3)
                (fromXML_settings E sound_root))))"

section \<open>project.py\<close>

text \<open>
  The state \<^verbatim>\<open>W3DProject.__setitem__\<close> touches: the level of the logger \<^verbatim>\<open>LOGGER\<close> of the
  process and the instance. The inherited \<^verbatim>\<open>__setitem__\<close> it ends with belongs to
  \<^verbatim>\<open>W3DFeature\<close>, which is not under src/, and is a parameter: some validated write on the
  instance.
\<close>

definition DEBUG :: int where
  "DEBUG = 10"

definition WARNING :: int where
  "WARNING = 30"

record project_state =
  logger_level :: int
  project :: feature

definition W3DProject_setitem ::
  "(string \<Rightarrow> pyval \<Rightarrow> feature \<Rightarrow> error + feature) \<Rightarrow> string \<Rightarrow> pyval \<Rightarrow> project_state
     \<Rightarrow> error option \<times> project_state" where
  \<comment> \<open>\<^verbatim>\<open>W3DProject.__setitem__\<close>, project.py lines 192-198: the exception raised, if any, and
      the state the call leaves\<close>
  "W3DProject_setitem super_setitem key v st =
     (let st1 = (if key = ''debug'' then
                   (if py_truthy v then st\<lparr>logger_level := DEBUG\<rparr>
                    else st\<lparr>logger_level := WARNING\<rparr>)
                 else st)
      in case super_setitem key v (project st1) of
           Inl e \<Rightarrow> (Some e, st1)
         | Inr self' \<Rightarrow> (None, st1\<lparr>project := self'\<rparr>))"

definition W3DProject_validators :: "(pyval \<Rightarrow> bool) \<Rightarrow> string \<Rightarrow> (pyval \<Rightarrow> bool) option" where
  \<comment> \<open>project.py lines 176-179: the boolean and numeric entries of
      \<^verbatim>\<open>W3DProject.argument_validators\<close>; the entries built from validators that are not
      under src/ are one parameter\<close>
  "W3DProject_validators other key =
     (if key \<in> {''allow_movement'', ''allow_rotation'', ''debug'', ''profile''} then Some IsBoolean
      else if key = ''far_clip'' then Some (IsNumeric (Some 0) None)
      else if key \<in> {''objects'', ''groups'', ''particle_actions'', ''timelines'', ''sounds'',
                      ''trigger_events'', ''camera_placement'', ''desktop_camera_placement'',
                      ''background'', ''wall_placements''} then Some other
      else None)"

definition W3DProject_class :: "(pyval \<Rightarrow> bool) \<Rightarrow> feature_class" where
  \<comment> \<open>project.py lines 132-190\<close>
  "W3DProject_class other =
     \<lparr> argument_validators = W3DProject_validators other,
       default_arguments = map_of
         [(''far_clip'', PInt 100),
          (''background'', PTuple [PInt 0, PInt 0, PInt 0]),
          (''allow_movement'', PBool True),
          (''allow_rotation'', PBool True),
          (''debug'', PBool False),
          (''profile'', PBool False)] \<rparr>"

section \<open>Instances and sample parameters\<close>

definition valid_feature :: "feature_class \<Rightarrow> feature \<Rightarrow> bool" where
  \<comment> \<open>what construction through \<^verbatim>\<open>__setitem__\<close> guarantees: each key once, each stored value
      accepted by the validator of its key\<close>
  "valid_feature K self =
     (distinct (map fst self) \<and>
      list_all (\<lambda>kv. case argument_validators K (fst kv) of
                        None \<Rightarrow> False
                      | Some valid \<Rightarrow> valid (snd kv)) self)"

definition is_str :: "pyval \<Rightarrow> bool" where
  "is_str v = (case v of PStr s \<Rightarrow> True | _ \<Rightarrow> False)"

definition sample_ext :: ext where
  \<comment> \<open>One choice of the parameters, for evaluating the model at concrete inputs: booleans
      written as the text tokens True and False (specification, section 6), a placement
      written as a \<^verbatim>\<open>Placement\<close> node that carries its entries as attributes, strings as
      names and file names, and \<^verbatim>\<open>float\<close> of a string defined on integer literals.\<close>
  "sample_ext =
     \<lparr> bool2text = (\<lambda>v. Inr (PStr (if py_truthy v then ''True'' else ''False''))),
       text2bool = (\<lambda>v. case v of PStr s \<Rightarrow> Inr (PBool (py_strip s = ''True''))
                                 | _ \<Rightarrow> Inl AttributeError),
       placement_toXML = (\<lambda>p node. case p of
                            PDict kvs \<Rightarrow> (SubElement node (Element ''Placement'' kvs PNone []), None)
                          | _ \<Rightarrow> (node, Some AttributeError)),
       placement_fromXML = (\<lambda>place_root. Inr (PDict (el_attrib place_root))),
       valid_pystring = is_str,
       valid_file = is_str,
       repr_other = (\<lambda>v. ''<object>''),
       float_parse = (\<lambda>s. case py_int_of_str s of Inr (PInt n) \<Rightarrow> float_of_int n | _ \<Rightarrow> None) \<rparr>"

section \<open>Round trips: what is asked of the parameters, and agreement\<close>

definition bool_roundtrip :: "ext \<Rightarrow> pyval \<Rightarrow> bool" where
  \<comment> \<open>\<open>text2bool\<close> reads back what \<open>bool2text\<close> writes for this value\<close>
  "bool_roundtrip E v = (case bool2text E v of Inl e \<Rightarrow> False | Inr t \<Rightarrow> text2bool E t = Inr v)"

definition reads_back :: "ext \<Rightarrow> pyval \<Rightarrow> pyval \<Rightarrow> bool" where
  \<comment> \<open>\<^verbatim>\<open>float\<close> of the written form \<open>w\<close> is the number \<open>v\<close>\<close>
  "reads_back E w v =
     (case is_number v of None \<Rightarrow> False | Some q \<Rightarrow> py_float E w = Inr (PFloat q))"

definition same_at :: "feature \<Rightarrow> feature \<Rightarrow> string \<Rightarrow> bool" where
  \<comment> \<open>an attribute stored in \<open>x\<close> is stored in \<open>y\<close> with the same value\<close>
  "same_at x y k = (case map_of x k of None \<Rightarrow> True | Some v \<Rightarrow> map_of y k = Some v)"

definition number_at :: "feature \<Rightarrow> feature \<Rightarrow> string \<Rightarrow> bool" where
  \<comment> \<open>a number stored in \<open>x\<close> is stored in \<open>y\<close> as an equal number (\<^verbatim>\<open>1 == 1.0\<close>)\<close>
  "number_at x y k =
     (case map_of x k of
        None \<Rightarrow> True
      | Some v \<Rightarrow>
          (case map_of y k of
             None \<Rightarrow> False
           | Some w \<Rightarrow> is_number v \<noteq> None \<and> is_number w = is_number v))"

definition repetitions_at :: "feature \<Rightarrow> feature \<Rightarrow> bool" where
  \<comment> \<open>an integer count stored in \<open>x\<close> is stored in \<open>y\<close>, a negative one as \<open>-1\<close>\<close>
  "repetitions_at x y =
     (case map_of x ''repetitions'' of
        Some (PInt n) \<Rightarrow> map_of y ''repetitions'' = Some (PInt (if n < 0 then - 1 else n))
      | _ \<Rightarrow> True)"

definition is_int :: "pyval \<Rightarrow> bool" where
  "is_int v = (case v of PInt n \<Rightarrow> True | _ \<Rightarrow> False)"

definition stored_str :: "feature \<Rightarrow> string \<Rightarrow> bool" where
  "stored_str x k = (case map_of x k of None \<Rightarrow> False | Some v \<Rightarrow> is_str v)"

definition sound_ready :: "ext \<Rightarrow> feature \<Rightarrow> bool" where
  \<comment> \<open>a sound built through \<^verbatim>\<open>__setitem__\<close> whose name and file name are strings and whose
      count, if stored, is an integer, with parameters that read back the stored boolean
      and the stored settings\<close>
  "sound_ready E x =
     (valid_feature (W3DSound_class E) x \<and>
      stored_str x ''name'' \<and> stored_str x ''filename'' \<and>
      (case map_of x ''autostart'' of None \<Rightarrow> True | Some b \<Rightarrow> bool_roundtrip E b) \<and>
      (case map_of x ''repetitions'' of None \<Rightarrow> True | Some r \<Rightarrow> is_int r) \<and>
      list_all (\<lambda>k. case map_of x k of
                      None \<Rightarrow> True
                    | Some v \<Rightarrow> reads_back E (PStr (py_str E v)) v)
        [''frequency_scale'', ''volume_scale'', ''pan''])"

definition sound_agrees :: "feature \<Rightarrow> feature \<Rightarrow> bool" where
  "sound_agrees x y =
     (list_all (same_at x y) [''name'', ''filename'', ''autostart'', ''movement_mode''] \<and>
      repetitions_at x y \<and>
      list_all (number_at x y) [''frequency_scale'', ''volume_scale'', ''pan''])"

section \<open>Properties of the base class\<close>

lemma W3DFeature_base [simp]:
  "W3DFeature_get = get" "W3DFeature_setitem = setitem" "W3DFeature_is_default = is_default"
  by (simp_all add: W3DFeature_get_def W3DFeature_setitem_def W3DFeature_is_default_def)

lemma map_of_setitem:
  "setitem K key v self = Inr self' \<Longrightarrow> map_of self' = (map_of self)(key \<mapsto> v)"
  by (auto simp: setitem_def update_conv' split: option.splits if_splits)

lemma ObjectAction_validators:
  "argument_validators ObjectAction_class ''object_name'' = Some AlwaysValid"
  "argument_validators ObjectAction_class ''duration'' = Some (IsNumeric (Some 0) None)"
  "argument_validators ObjectAction_class ''visible'' = Some AlwaysValid"
  "argument_validators ObjectAction_class ''placement'' = Some AlwaysValid"
  "argument_validators ObjectAction_class ''move_relative'' = Some AlwaysValid"
  "argument_validators ObjectAction_class ''colour'' = None"
  by (simp_all add: ObjectAction_class_def)

lemma ObjectAction_defaults:
  "default_arguments ObjectAction_class ''object_name'' = None"
  "default_arguments ObjectAction_class ''duration'' = Some (PInt 1)"
  "default_arguments ObjectAction_class ''move_relative'' = None"
  by (simp_all add: ObjectAction_class_def)

text \<open>
  C4. For every feature class \<open>K\<close>, name \<open>n\<close> and value \<open>v\<close>: \<open>set(n, v)\<close> raises
  \<^verbatim>\<open>InvalidArgument\<close> with the "not a valid option" message when \<open>n\<close> is not in the
  schema of \<open>K\<close>, raises \<^verbatim>\<open>InvalidArgument\<close> with the "not a valid value" message when the
  validator of \<open>n\<close> rejects \<open>v\<close>, and otherwise commits the write: a following \<open>get(n)\<close>
  returns exactly \<open>v\<close>.
\<close>

theorem C4_setitem:
  "(argument_validators K n = None \<longrightarrow>
      setitem K n v self = Inl (InvalidArgument (NotValidOption n)))
   \<and> (\<forall>valid. argument_validators K n = Some valid \<and> \<not> valid v \<longrightarrow>
      setitem K n v self = Inl (InvalidArgument (NotValidValue v n)))
   \<and> (\<forall>valid. argument_validators K n = Some valid \<and> valid v \<longrightarrow>
      (\<exists>self'. setitem K n v self = Inr self' \<and> get K self' n = Inr v))"
  by (simp add: setitem_def get_def getitem_def update_conv')

theorem C4_setitem_witness:
  "setitem ObjectAction_class ''colour'' (PInt 2) [] = Inl (InvalidArgument (NotValidOption ''colour''))
   \<and> setitem ObjectAction_class ''duration'' (PInt (- 2)) []
       = Inl (InvalidArgument (NotValidValue (PInt (- 2)) ''duration''))
   \<and> (\<exists>self'. setitem ObjectAction_class ''duration'' (PInt 2) [] = Inr self'
        \<and> get ObjectAction_class self' ''duration'' = Inr (PInt 2))"
  using C4_setitem [of ObjectAction_class "''colour''" "PInt 2" "[]"]
    C4_setitem [of ObjectAction_class "''duration''" "PInt (- 2)" "[]"]
    C4_setitem [of ObjectAction_class "''duration''" "PInt 2" "[]"]
  by (simp add: ObjectAction_validators IsNumeric_def is_number_def)

text \<open>
  C5. For every feature instance and name \<open>n\<close>, \<open>is_default(n)\<close> is true if and only if \<open>n\<close>
  is absent from the storage of the instance and a default is declared for \<open>n\<close>; after
  any successful \<open>set(n, v)\<close> it is false, whatever \<open>v\<close> is, the declared default included.
\<close>

theorem C5_is_default:
  "(is_default K self n \<longleftrightarrow> map_of self n = None \<and> default_arguments K n \<noteq> None)
   \<and> (\<forall>v self'. setitem K n v self = Inr self' \<longrightarrow> \<not> is_default K self' n)"
  by (auto simp: is_default_def contains_def dest: map_of_setitem)

theorem C5_is_default_witness:
  "is_default ObjectAction_class [] ''duration''
   \<and> setitem ObjectAction_class ''duration'' (PInt 1) [] = Inr [(''duration'', PInt 1)]
   \<and> default_arguments ObjectAction_class ''duration'' = Some (PInt 1)
   \<and> \<not> is_default ObjectAction_class [(''duration'', PInt 1)] ''duration''"
proof -
  have s: "setitem ObjectAction_class ''duration'' (PInt 1) [] = Inr [(''duration'', PInt 1)]"
    by (simp add: setitem_def ObjectAction_validators IsNumeric_def is_number_def)
  have d: "default_arguments ObjectAction_class ''duration'' = Some (PInt 1)"
    by (simp add: ObjectAction_defaults)
  from C5_is_default [of ObjectAction_class "[]" "''duration''"] d
  have a: "is_default ObjectAction_class [] ''duration''" by simp
  from C5_is_default [of ObjectAction_class "[]" "''duration''"] s
  have b: "\<not> is_default ObjectAction_class [(''duration'', PInt 1)] ''duration''" by blast
  from a s d b show ?thesis by blast
qed

text \<open>
  C6. For every feature instance, \<open>get(n)\<close> returns the stored value when \<open>n\<close> is in the
  storage; when \<open>n\<close> is absent and has a declared default it returns the default and the
  instance is as before (the default is not stored); when \<open>n\<close> is absent and has no
  default it raises \<^verbatim>\<open>KeyError\<close>.
\<close>

theorem C6_getitem:
  "(\<forall>v. map_of self n = Some v \<longrightarrow> getitem K n self = (Inr v, self))
   \<and> (\<forall>d. map_of self n = None \<and> default_arguments K n = Some d \<longrightarrow>
        getitem K n self = (Inr d, self) \<and> \<not> contains (snd (getitem K n self)) n)
   \<and> (map_of self n = None \<and> default_arguments K n = None \<longrightarrow>
        getitem K n self = (Inl (KeyError n), self))"
  by (simp add: getitem_def missing_def contains_def)

theorem C6_getitem_witness:
  "getitem ObjectAction_class ''object_name'' [(''object_name'', PStr ''Cube'')]
     = (Inr (PStr ''Cube''), [(''object_name'', PStr ''Cube'')])
   \<and> getitem ObjectAction_class ''duration'' [(''object_name'', PStr ''Cube'')]
     = (Inr (PInt 1), [(''object_name'', PStr ''Cube'')])
   \<and> getitem ObjectAction_class ''move_relative'' [(''object_name'', PStr ''Cube'')]
     = (Inl (KeyError ''move_relative''), [(''object_name'', PStr ''Cube'')])"
  using C6_getitem [of "[(''object_name'', PStr ''Cube'')]" "''object_name''" ObjectAction_class]
    C6_getitem [of "[(''object_name'', PStr ''Cube'')]" "''duration''" ObjectAction_class]
    C6_getitem [of "[(''object_name'', PStr ''Cube'')]" "''move_relative''" ObjectAction_class]
  by (simp add: ObjectAction_defaults)

section \<open>The project's debug attribute\<close>

text \<open>
  C10. On a project, every attempted set of \<open>debug\<close> sets the level of the process-wide
  logger, to \<open>DEBUG\<close> when the value is truthy and to \<open>WARNING\<close> otherwise, before the
  inherited validated write runs: the level is set also when that write raises, in which
  case the exception propagates and the instance is as before. A set of any other name
  leaves the level as it was.
\<close>

theorem C10_debug_logger:
  "(key = ''debug'' \<longrightarrow>
      logger_level (snd (W3DProject_setitem super_setitem key v st))
        = (if py_truthy v then DEBUG else WARNING))
   \<and> (\<forall>e. key = ''debug'' \<and> super_setitem key v (project st) = Inl e \<longrightarrow>
        W3DProject_setitem super_setitem key v st
          = (Some e, st\<lparr>logger_level := if py_truthy v then DEBUG else WARNING\<rparr>))
   \<and> (key \<noteq> ''debug'' \<longrightarrow>
        logger_level (snd (W3DProject_setitem super_setitem key v st)) = logger_level st)"
  by (auto simp: W3DProject_setitem_def Let_def split: sum.splits)

theorem C10_debug_logger_witness:
  "W3DProject_setitem (setitem (W3DProject_class AlwaysValid)) ''debug'' (PStr ''yes'')
       \<lparr>logger_level = WARNING, project = []\<rparr>
     = (Some (InvalidArgument (NotValidValue (PStr ''yes'') ''debug'')),
        \<lparr>logger_level = DEBUG, project = []\<rparr>)
   \<and> logger_level (snd (W3DProject_setitem (setitem (W3DProject_class AlwaysValid))
        ''debug'' (PBool False) \<lparr>logger_level = DEBUG, project = []\<rparr>)) = WARNING
   \<and> logger_level (snd (W3DProject_setitem (setitem (W3DProject_class AlwaysValid))
        ''profile'' (PBool True) \<lparr>logger_level = DEBUG, project = []\<rparr>)) = DEBUG"
proof -
  have r: "setitem (W3DProject_class AlwaysValid) ''debug'' (PStr ''yes'') []
             = Inl (InvalidArgument (NotValidValue (PStr ''yes'') ''debug''))"
    by (simp add: setitem_def W3DProject_class_def W3DProject_validators_def IsBoolean_def)
  show ?thesis
    using r
      C10_debug_logger [of "''debug''" "setitem (W3DProject_class AlwaysValid)" "PStr ''yes''"
        "\<lparr>logger_level = WARNING, project = []\<rparr>"]
      C10_debug_logger [of "''debug''" "setitem (W3DProject_class AlwaysValid)" "PBool False"
        "\<lparr>logger_level = DEBUG, project = []\<rparr>"]
      C10_debug_logger [of "''profile''" "setitem (W3DProject_class AlwaysValid)" "PBool True"
        "\<lparr>logger_level = DEBUG, project = []\<rparr>"]
    by simp
qed

section \<open>Serializing an Object-change action\<close>

lemma get_stored: "map_of self k = Some v \<Longrightarrow> get K self k = Inr v"
  by (simp add: get_def getitem_def)

lemma get_absent: "map_of self k = None \<Longrightarrow> get K self k = missing K k"
  by (simp add: get_def getitem_def)

lemma ObjectAction_missing:
  "missing ObjectAction_class ''object_name'' = Inl (KeyError ''object_name'')"
  "missing ObjectAction_class ''duration'' = Inr (PInt 1)"
  "missing ObjectAction_class ''move_relative'' = Inl (KeyError ''move_relative'')"
  by (simp_all add: missing_def ObjectAction_defaults)

lemma get_duration:
  "get ObjectAction_class self ''duration'' = Inr (dict_get self ''duration'' (PInt 1))"
  by (simp add: get_def getitem_def dict_get_def ObjectAction_missing split: option.splits)

lemma ObjectAction_toXML_named:
  assumes "map_of self ''object_name'' = Some name"
  shows "ObjectAction_toXML E self parent =
     (SubElement parent (Element ''ObjectChange'' [(''name'', name)] PNone
         [Element ''Transition'' [(''duration'', dict_get self ''duration'' (PInt 1))] PNone
            (fst (toXML_transition E self))]),
      case snd (toXML_transition E self) of
        None \<Rightarrow> Inr (Element ''ObjectChange'' [(''name'', name)] PNone
         [Element ''Transition'' [(''duration'', dict_get self ''duration'' (PInt 1))] PNone
            (fst (toXML_transition E self))])
      | Some e \<Rightarrow> Inl e)"
  using assms
  by (cases "toXML_transition E self")
     (simp add: ObjectAction_toXML_def get_stored get_duration Let_def split: option.splits)

lemma ObjectAction_toXML_unnamed:
  assumes "map_of self ''object_name'' = None"
  shows "ObjectAction_toXML E self parent = (parent, Inl (KeyError ''object_name''))"
  using assms by (simp add: ObjectAction_toXML_def get_absent ObjectAction_missing)

lemma then_step_error [simp]: "then_step (cs, Some e) f = (cs, Some e)"
  by (simp add: then_step_def)

lemma then_step_ok [simp]: "then_step (cs, None) f = f cs"
  by (simp add: then_step_def)

lemma transition_no_move_relative:
  assumes "map_of self ''placement'' = Some p" and "map_of self ''move_relative'' = None"
  shows "\<exists>cs e. toXML_transition E self = (cs, Some e) \<and> (\<forall>c \<in> set cs. el_tag c = ''Visible'')"
proof (cases "toXML_visible E self []")
  case (Pair cs err)
  show ?thesis
  proof (cases err)
    case None
    with Pair have "toXML_transition E self = (cs, Some (KeyError ''move_relative''))"
      using assms
      by (simp add: toXML_transition_def toXML_placement_def get_absent ObjectAction_missing)
    moreover have "\<forall>c \<in> set cs. el_tag c = ''Visible''"
      using Pair by (auto simp: toXML_visible_def split: option.splits sum.splits)
    ultimately show ?thesis by blast
  next
    case (Some e)
    with Pair have "toXML_transition E self = (cs, Some e)"
      by (simp add: toXML_transition_def)
    moreover have "\<forall>c \<in> set cs. el_tag c = ''Visible''"
      using Pair by (auto simp: toXML_visible_def split: option.splits sum.splits)
    ultimately show ?thesis by blast
  qed
qed

lemma transition_no_move_relative_plain:
  assumes "map_of self ''placement'' = Some p" and "map_of self ''move_relative'' = None"
    and "map_of self ''visible'' = None"
  shows "toXML_transition E self = ([], Some (KeyError ''move_relative''))"
  using assms
  by (simp add: toXML_transition_def toXML_visible_def toXML_placement_def get_absent ObjectAction_missing)

lemma toXML_fails_without_move_relative:
  assumes q: "map_of self ''placement'' = Some q" and m: "map_of self ''move_relative'' = None"
  shows "\<exists>e. snd (ObjectAction_toXML E self parent_root) = Inl e"
proof -
  from transition_no_move_relative [OF q m, of E]
  obtain cs e where t: "toXML_transition E self = (cs, Some e)" by blast
  show ?thesis
  proof (cases "map_of self ''object_name''")
    case None
    then show ?thesis by (simp add: ObjectAction_toXML_unnamed)
  next
    case (Some name)
    then show ?thesis by (simp add: ObjectAction_toXML_named t)
  qed
qed

text \<open>
  C9. Writing \<open>placement\<close> on an Object-change action succeeds whatever else is set: the
  write is valid on its own. When \<open>move_relative\<close> was never set, serializing the
  resulting instance fails, and the \<^verbatim>\<open>Transition\<close> node built up to the failure has no
  \<^verbatim>\<open>Movement\<close> and no \<^verbatim>\<open>MoveRel\<close> child; with \<open>object_name\<close> set and \<open>visible\<close> not set,
  the failure is the \<^verbatim>\<open>KeyError\<close> of reading \<open>move_relative\<close>.
\<close>

theorem C9_placement_without_move_relative:
  "\<exists>self'. setitem ObjectAction_class ''placement'' p self = Inr self'
     \<and> map_of self' = (map_of self)(''placement'' \<mapsto> p)
     \<and> (map_of self ''move_relative'' = None \<longrightarrow>
          (\<exists>e. snd (ObjectAction_toXML E self' parent_root) = Inl e)
          \<and> (\<forall>c \<in> set (fst (toXML_transition E self')). el_tag c \<notin> {''Movement'', ''MoveRel''})
          \<and> (\<forall>name. map_of self ''object_name'' = Some name \<and> map_of self ''visible'' = None \<longrightarrow>
                ObjectAction_toXML E self' parent_root =
                  (SubElement parent_root
                     (Element ''ObjectChange'' [(''name'', name)] PNone
                        [Element ''Transition''
                           [(''duration'', dict_get self ''duration'' (PInt 1))] PNone []]),
                   Inl (KeyError ''move_relative''))))"
proof -
  define self' where "self' = AList.update ''placement'' p self"
  have w: "setitem ObjectAction_class ''placement'' p self = Inr self'"
    by (simp add: setitem_def ObjectAction_validators AlwaysValid_def self'_def)
  have m: "map_of self' = (map_of self)(''placement'' \<mapsto> p)"
    by (simp add: self'_def update_conv')
  have f: "\<exists>e. snd (ObjectAction_toXML E self' parent_root) = Inl e"
    if "map_of self ''move_relative'' = None"
    using that by (intro toXML_fails_without_move_relative [of _ p]) (simp_all add: m)
  have c: "\<forall>c \<in> set (fst (toXML_transition E self')). el_tag c \<notin> {''Movement'', ''MoveRel''}"
    if "map_of self ''move_relative'' = None"
  proof -
    from that have "\<exists>cs e. toXML_transition E self' = (cs, Some e) \<and> (\<forall>c \<in> set cs. el_tag c = ''Visible'')"
      by (intro transition_no_move_relative [of _ p]) (simp_all add: m)
    then show ?thesis by auto
  qed
  have x: "ObjectAction_toXML E self' parent_root =
                  (SubElement parent_root
                     (Element ''ObjectChange'' [(''name'', name)] PNone
                        [Element ''Transition''
                           [(''duration'', dict_get self ''duration'' (PInt 1))] PNone []]),
                   Inl (KeyError ''move_relative''))"
    if "map_of self ''move_relative'' = None" "map_of self ''object_name'' = Some name"
       "map_of self ''visible'' = None" for name
  proof -
    have "toXML_transition E self' = ([], Some (KeyError ''move_relative''))"
      using that by (intro transition_no_move_relative_plain [of _ p]) (simp_all add: m)
    moreover have "map_of self' ''object_name'' = Some name" using that by (simp add: m)
    moreover have "dict_get self' ''duration'' (PInt 1) = dict_get self ''duration'' (PInt 1)"
      by (simp add: dict_get_def m)
    ultimately show ?thesis by (simp add: ObjectAction_toXML_named)
  qed
  show ?thesis
  proof (intro exI [of _ self'] conjI impI)
    show "\<forall>name. map_of self ''object_name'' = Some name \<and> map_of self ''visible'' = None \<longrightarrow>
                ObjectAction_toXML E self' parent_root =
                  (SubElement parent_root
                     (Element ''ObjectChange'' [(''name'', name)] PNone
                        [Element ''Transition''
                           [(''duration'', dict_get self ''duration'' (PInt 1))] PNone []]),
                   Inl (KeyError ''move_relative''))"
      if "map_of self ''move_relative'' = None"
      using x [OF that] by blast
  qed (use w m f c in simp_all)
qed

theorem C9_placement_without_move_relative_witness:
  "setitem ObjectAction_class ''placement'' (PDict []) [(''object_name'', PStr ''Cube'')]
     = Inr [(''object_name'', PStr ''Cube''), (''placement'', PDict [])]
   \<and> ObjectAction_toXML sample_ext [(''object_name'', PStr ''Cube''), (''placement'', PDict [])]
        (Element ''Actions'' [] PNone [])
      = (Element ''Actions'' [] PNone
           [Element ''ObjectChange'' [(''name'', PStr ''Cube'')] PNone
              [Element ''Transition'' [(''duration'', PInt 1)] PNone []]],
         Inl (KeyError ''move_relative''))"
proof -
  have w: "setitem ObjectAction_class ''placement'' (PDict []) [(''object_name'', PStr ''Cube'')]
     = Inr [(''object_name'', PStr ''Cube''), (''placement'', PDict [])]"
    by (simp add: setitem_def ObjectAction_validators AlwaysValid_def)
  show ?thesis
    using w C9_placement_without_move_relative [of "PDict []" "[(''object_name'', PStr ''Cube'')]"
      sample_ext "Element ''Actions'' [] PNone []"]
    by (simp add: dict_get_def SubElement_def)
qed

section \<open>Calling the parsers of actions.py\<close>

lemma classmethod1_argument: "classmethod1 cls func (x # xs) = Inl TypeError"
  by (simp add: classmethod1_def)

lemma classmethod1_no_argument: "classmethod1 cls func [] = func (Class cls)"
  by (simp add: classmethod1_def)

lemma CaveFeature_fromXML_one: "CaveFeature_fromXML [x] = Inl (NotImplementedError ''fromXML not defined for this feature'')"
  by (simp add: CaveFeature_fromXML_def classmethod2_def CaveFeature_fromXML_func_def)

lemma ObjectAction_fromXML_call: "ObjectAction_fromXML E (x # xs) = Inl TypeError"
  by (simp add: ObjectAction_fromXML_def classmethod1_argument)

lemma placeholder_calls:
  "GroupAction_fromXML (x # xs) = Inl TypeError"
  "TimelineAction_fromXML (x # xs) = Inl TypeError"
  "SoundAction_fromXML (x # xs) = Inl TypeError"
  "EventTriggerAction_fromXML (x # xs) = Inl TypeError"
  "MoveCaveAction_fromXML (x # xs) = Inl TypeError"
  "CaveResetAction_fromXML (x # xs) = Inl TypeError"
  by (simp_all add: GroupAction_fromXML_def TimelineAction_fromXML_def SoundAction_fromXML_def
      EventTriggerAction_fromXML_def MoveCaveAction_fromXML_def CaveResetAction_fromXML_def
      classmethod1_argument)

lemma placeholder_funcs:
  "GroupAction_fromXML_func x = Inl (NotImplementedError ''fromXML not defined for this feature'')"
  "TimelineAction_fromXML_func x = Inl (NotImplementedError ''fromXML not defined for this feature'')"
  "SoundAction_fromXML_func x = Inl (NotImplementedError ''fromXML not defined for this feature'')"
  "EventTriggerAction_fromXML_func x = Inl (NotImplementedError ''fromXML not defined for this feature'')"
  "MoveCaveAction_fromXML_func x = Inl (NotImplementedError ''fromXML not defined for this feature'')"
  "CaveResetAction_fromXML_func x = Inl (NotImplementedError ''fromXML not defined for this feature'')"
  by (simp_all add: GroupAction_fromXML_func_def TimelineAction_fromXML_func_def
      SoundAction_fromXML_func_def EventTriggerAction_fromXML_func_def
      MoveCaveAction_fromXML_func_def CaveResetAction_fromXML_func_def CaveFeature_fromXML_one)

text \<open>
  The function behind \<^verbatim>\<open>CaveAction.fromXML\<close>, were it handed a node: an unregistered tag
  is the \<^verbatim>\<open>BadCaveXML\<close> that carries the tag, and a registered tag reaches the call of the
  matching parser, which is a \<^verbatim>\<open>TypeError\<close> in turn.
\<close>

lemma dispatch_func_unregistered:
  "el_tag node \<notin> {''ObjectChange'', ''GroupRef'', ''TimerChange'', ''SoundRef'', ''Event'',
                    ''MoveCave'', ''Restart''}
   \<Longrightarrow> CaveAction_fromXML_func E (Node node)
       = Inl (BadCaveXML (''Indicated action '' @ el_tag node @ '' is not a valid action type''))"
  by (simp add: CaveAction_fromXML_func_def)

lemma dispatch_func_registered:
  "el_tag node \<in> {''ObjectChange'', ''GroupRef'', ''TimerChange'', ''SoundRef'', ''Event'',
                    ''MoveCave'', ''Restart''}
   \<Longrightarrow> CaveAction_fromXML_func E (Node node) = Inl TypeError"
  by (auto simp: CaveAction_fromXML_func_def ObjectAction_fromXML_call placeholder_calls
      bind_err_def)

text \<open>
  C3. Dispatch fails on every document node, whatever its tag: \<^verbatim>\<open>CaveAction.fromXML\<close> is a
  class method declared with the one parameter \<^verbatim>\<open>action_root\<close>, which the class takes, so
  the call with the node raises \<^verbatim>\<open>TypeError\<close> before the tag is looked at. No instance is
  returned for a registered tag, and the failure for an unregistered tag does not carry
  the tag.
\<close>

theorem C3_dispatch_TypeError:
  "CaveAction_fromXML E [Node node] = Inl TypeError"
  by (simp add: CaveAction_fromXML_def classmethod1_argument)

section \<open>Scenario A\<close>

lemma cube_transition: "toXML_transition E [(''object_name'', PStr ''Cube'')] = ([], None)"
  by (simp add: toXML_transition_def toXML_visible_def toXML_placement_def toXML_color_def
     toXML_scale_def toXML_sound_change_def toXML_link_change_def)

lemma toXML_cube:
  "ObjectAction_toXML E [(''object_name'', PStr ''Cube'')] parent =
    (SubElement parent (Element ''ObjectChange'' [(''name'', PStr ''Cube'')] PNone
       [Element ''Transition'' [(''duration'', PInt 1)] PNone []]),
     Inr (Element ''ObjectChange'' [(''name'', PStr ''Cube'')] PNone
       [Element ''Transition'' [(''duration'', PInt 1)] PNone []]))"
  by (simp add: ObjectAction_toXML_named cube_transition dict_get_def)

lemma float_of_int_1: "float_of_int 1 = Some 1"
  by (simp add: float_of_int_def)

text \<open>
  The function behind \<^verbatim>\<open>ObjectAction.fromXML\<close>, were it handed the node of scenario A,
  would store the duration it reads: \<open>is_default("duration")\<close> would be false there.
\<close>

lemma fromXML_func_cube:
  "ObjectAction_fromXML_func E (Node (Element ''ObjectChange'' [(''name'', PStr ''Cube'')] PNone
       [Element ''Transition'' [(''duration'', PInt 1)] PNone []]))
   = Inr [(''object_name'', PStr ''Cube''), (''duration'', PFloat 1)]"
  by (simp add: ObjectAction_fromXML_func_def bind_err_def setitem_def ObjectAction_validators
      AlwaysValid_def find_child_def fromXML_duration_def py_float_def float_of_int_1
      IsNumeric_def is_number_def fromXML_visible_def fromXML_movement_def)

text \<open>
  C2. An Object-change action with only \<open>object_name = "Cube"\<close> serializes to an
  \<^verbatim>\<open>ObjectChange\<close> node with the attribute \<open>name = "Cube"\<close> and one child, a \<^verbatim>\<open>Transition\<close>
  node without children whose \<open>duration\<close> attribute holds the integer 1, not the text
  \<open>"1"\<close>. Parsing that node back does not yield an instance: the call
  \<^verbatim>\<open>ObjectAction.fromXML(node)\<close> raises \<^verbatim>\<open>TypeError\<close>.
\<close>

theorem C2_scenario_A:
  "ObjectAction_toXML E [(''object_name'', PStr ''Cube'')] parent_root
     = (SubElement parent_root
          (Element ''ObjectChange'' [(''name'', PStr ''Cube'')] PNone
             [Element ''Transition'' [(''duration'', PInt 1)] PNone []]),
        Inr (Element ''ObjectChange'' [(''name'', PStr ''Cube'')] PNone
               [Element ''Transition'' [(''duration'', PInt 1)] PNone []]))
   \<and> ObjectAction_fromXML E
        [Node (Element ''ObjectChange'' [(''name'', PStr ''Cube'')] PNone
                 [Element ''Transition'' [(''duration'', PInt 1)] PNone []])]
     = Inl TypeError"
  by (simp add: toXML_cube ObjectAction_fromXML_call)

section \<open>The function behind ObjectAction.fromXML\<close>

text \<open>
  What the body of \<^verbatim>\<open>ObjectAction.fromXML\<close> computes when its parameter holds a node, which
  no call through the class method gives it.
\<close>

lemma setitem_always_valid:
  "argument_validators K k = Some AlwaysValid \<Longrightarrow> setitem K k v a = Inr (AList.update k v a)"
  by (simp add: setitem_def AlwaysValid_def)

lemma setitem_frame:
  "setitem K k v a = Inr a' \<Longrightarrow> k' \<noteq> k \<Longrightarrow> map_of a' k' = map_of a k'"
  by (simp add: map_of_setitem)

lemma fromXML_duration_frame:
  "fromXML_duration E t a = Inr a' \<Longrightarrow> k \<noteq> ''duration'' \<Longrightarrow> map_of a' k = map_of a k"
  by (auto simp: fromXML_duration_def bind_err_def map_of_setitem split: option.splits sum.splits)

lemma fromXML_visible_frame:
  "fromXML_visible E t a = Inr a' \<Longrightarrow> k \<noteq> ''visible'' \<Longrightarrow> map_of a' k = map_of a k"
  by (auto simp: fromXML_visible_def bind_err_def map_of_setitem split: option.splits sum.splits)

lemma fromXML_movement_MoveRel:
  assumes "find_child t ''MoveRel'' = Some m"
  shows "fromXML_movement E t a =
     (case find_child m ''Placement'' of
        None \<Rightarrow> Inl (BadCaveXML ''Movement or MoveRel node requires Placement child node'')
      | Some place_root \<Rightarrow>
          (case placement_fromXML E place_root of
             Inl e \<Rightarrow> Inl e
           | Inr p \<Rightarrow> Inr (AList.update ''placement'' p
                             (AList.update ''move_relative'' (PBool True) a))))"
  using assms
  by (simp add: fromXML_movement_def bind_err_def setitem_always_valid ObjectAction_validators
      dict_get_def update_conv' split: option.splits sum.splits)

lemma fromXML_movement_Movement:
  assumes "find_child t ''MoveRel'' = None" and "find_child t ''Movement'' = Some m"
    and "map_of a ''move_relative'' = None"
  shows "fromXML_movement E t a =
     (case find_child m ''Placement'' of
        None \<Rightarrow> Inl (BadCaveXML ''Movement or MoveRel node requires Placement child node'')
      | Some place_root \<Rightarrow>
          (case placement_fromXML E place_root of
             Inl e \<Rightarrow> Inl e
           | Inr p \<Rightarrow> Inr (AList.update ''placement'' p
                             (AList.update ''move_relative'' (PBool False) a))))"
  using assms
  by (simp add: fromXML_movement_def bind_err_def setitem_always_valid ObjectAction_validators
      dict_get_def split: option.splits sum.splits)

lemma fromXML_movement_neither:
  assumes "find_child t ''MoveRel'' = None" and "find_child t ''Movement'' = None"
  shows "fromXML_movement E t a = Inr a"
  using assms by (simp add: fromXML_movement_def bind_err_def)

lemma fromXML_movement_move_relative:
  assumes "fromXML_movement E t a = Inr a'" and "map_of a ''move_relative'' = None"
  shows "map_of a' ''move_relative'' =
     (if find_child t ''MoveRel'' \<noteq> None then Some (PBool True)
      else if find_child t ''Movement'' \<noteq> None then Some (PBool False)
      else None)"
proof (cases "find_child t ''MoveRel''")
  case (Some m)
  with assms show ?thesis
    by (auto simp: fromXML_movement_MoveRel update_conv' split: option.splits sum.splits)
next
  case None
  show ?thesis
  proof (cases "find_child t ''Movement''")
    case (Some m)
    with None assms show ?thesis
      by (auto simp: fromXML_movement_Movement update_conv' split: option.splits sum.splits)
  next
    case n: None
    with None assms show ?thesis by (simp add: fromXML_movement_neither)
  qed
qed

lemma ObjectAction_fromXML_func_steps:
  assumes "ObjectAction_fromXML_func E (Node node) = Inr a" and "find_child node ''Transition'' = Some t"
  shows "\<exists>name a2 a3. map_of (el_attrib node) ''name'' = Some name
           \<and> fromXML_duration E t [(''object_name'', name)] = Inr a2
           \<and> fromXML_visible E t a2 = Inr a3
           \<and> fromXML_movement E t a3 = Inr a"
  using assms
  by (auto simp: ObjectAction_fromXML_func_def bind_err_def setitem_always_valid ObjectAction_validators
     split: option.splits sum.splits)

lemma ObjectAction_fromXML_func_from_steps:
  assumes "find_child node ''Transition'' = Some t" and "map_of (el_attrib node) ''name'' = Some name"
    and "fromXML_duration E t [(''object_name'', name)] = Inr a2"
    and "fromXML_visible E t a2 = Inr a3"
  shows "ObjectAction_fromXML_func E (Node node) = fromXML_movement E t a3"
  using assms
  by (simp add: ObjectAction_fromXML_func_def bind_err_def setitem_always_valid ObjectAction_validators)

lemma before_movement:
  assumes "fromXML_duration E t [(''object_name'', name)] = Inr a2"
    and "fromXML_visible E t a2 = Inr a3"
  shows "map_of a3 ''move_relative'' = None"
  using fromXML_visible_frame [OF assms(2), of "''move_relative''"]
    fromXML_duration_frame [OF assms(1), of "''move_relative''"]
  by simp

lemma movement_without_placement:
  assumes "find_child t ''MoveRel'' = Some m
           \<or> find_child t ''MoveRel'' = None \<and> find_child t ''Movement'' = Some m"
    and "find_child m ''Placement'' = None" and "map_of a ''move_relative'' = None"
  shows "fromXML_movement E t a
           = Inl (BadCaveXML ''Movement or MoveRel node requires Placement child node'')"
  using assms by (auto simp: fromXML_movement_MoveRel fromXML_movement_Movement)

lemma ObjectAction_fromXML_func_fails_without_placement:
  assumes t: "find_child node ''Transition'' = Some t"
    and m: "find_child t ''MoveRel'' = Some m
           \<or> find_child t ''MoveRel'' = None \<and> find_child t ''Movement'' = Some m"
    and p: "find_child m ''Placement'' = None"
  shows "\<exists>e. ObjectAction_fromXML_func E (Node node) = Inl e"
proof (cases "ObjectAction_fromXML_func E (Node node)")
  case (Inl e)
  then show ?thesis by blast
next
  case (Inr a)
  from ObjectAction_fromXML_func_steps [OF Inr t] obtain name a2 a3 where
    s: "fromXML_duration E t [(''object_name'', name)] = Inr a2" "fromXML_visible E t a2 = Inr a3"
       "fromXML_movement E t a3 = Inr a" by blast
  from movement_without_placement [OF m p before_movement [OF s(1,2)], of E] s(3)
  show ?thesis by simp
qed

lemma func_move_relative:
  "(\<forall>t a. find_child node ''Transition'' = Some t \<and> ObjectAction_fromXML_func E (Node node) = Inr a \<longrightarrow>
       (map_of a ''move_relative'' = Some (PBool True) \<longleftrightarrow> find_child t ''MoveRel'' \<noteq> None)
     \<and> (map_of a ''move_relative'' = Some (PBool False) \<longleftrightarrow>
          find_child t ''MoveRel'' = None \<and> find_child t ''Movement'' \<noteq> None)
     \<and> (map_of a ''move_relative'' = None \<longleftrightarrow>
          find_child t ''MoveRel'' = None \<and> find_child t ''Movement'' = None))
   \<and> (\<forall>t m. find_child node ''Transition'' = Some t
         \<and> (find_child t ''MoveRel'' = Some m
            \<or> find_child t ''MoveRel'' = None \<and> find_child t ''Movement'' = Some m)
         \<and> find_child m ''Placement'' = None \<longrightarrow>
       (\<exists>e. ObjectAction_fromXML_func E (Node node) = Inl e)
     \<and> (\<forall>name a2 a3. map_of (el_attrib node) ''name'' = Some name
            \<and> fromXML_duration E t [(''object_name'', name)] = Inr a2
            \<and> fromXML_visible E t a2 = Inr a3 \<longrightarrow>
          ObjectAction_fromXML_func E (Node node)
            = Inl (BadCaveXML ''Movement or MoveRel node requires Placement child node'')))"
proof (intro conjI allI impI; (elim conjE)?)
  fix t a
  assume t: "find_child node ''Transition'' = Some t" and a: "ObjectAction_fromXML_func E (Node node) = Inr a"
  from ObjectAction_fromXML_func_steps [OF a t] obtain name a2 a3 where
    s: "fromXML_duration E t [(''object_name'', name)] = Inr a2" "fromXML_visible E t a2 = Inr a3"
       "fromXML_movement E t a3 = Inr a" by blast
  note mr = fromXML_movement_move_relative [OF s(3) before_movement [OF s(1,2)]]
  show "map_of a ''move_relative'' = Some (PBool True) \<longleftrightarrow> find_child t ''MoveRel'' \<noteq> None"
    using mr by (simp split: if_splits)
  show "map_of a ''move_relative'' = Some (PBool False) \<longleftrightarrow>
          find_child t ''MoveRel'' = None \<and> find_child t ''Movement'' \<noteq> None"
    using mr by (simp split: if_splits)
  show "map_of a ''move_relative'' = None \<longleftrightarrow>
          find_child t ''MoveRel'' = None \<and> find_child t ''Movement'' = None"
    using mr by (simp split: if_splits)
next
  fix t m
  assume t: "find_child node ''Transition'' = Some t"
    and m: "find_child t ''MoveRel'' = Some m
            \<or> find_child t ''MoveRel'' = None \<and> find_child t ''Movement'' = Some m"
    and p: "find_child m ''Placement'' = None"
  show "\<exists>e. ObjectAction_fromXML_func E (Node node) = Inl e"
    by (rule ObjectAction_fromXML_func_fails_without_placement [OF t m p])
  fix name a2 a3
  assume "map_of (el_attrib node) ''name'' = Some name"
    and "fromXML_duration E t [(''object_name'', name)] = Inr a2"
    and "fromXML_visible E t a2 = Inr a3"
  then show "ObjectAction_fromXML_func E (Node node)
            = Inl (BadCaveXML ''Movement or MoveRel node requires Placement child node'')"
    using ObjectAction_fromXML_func_from_steps [OF t, of name E a2 a3]
      movement_without_placement [OF m p, of a3 E] before_movement [of E t name a2 a3]
    by simp
qed


text \<open>
  C7. Deserializing an Object-change action fails on every node: \<^verbatim>\<open>ObjectAction.fromXML\<close>
  is a class method declared with the one parameter \<^verbatim>\<open>action_root\<close>, which the class
  takes, so the call with the node raises \<^verbatim>\<open>TypeError\<close> before the body runs. No instance
  with \<open>move_relative\<close> is returned for a node with a \<^verbatim>\<open>MoveRel\<close> or \<^verbatim>\<open>Movement\<close> child, and
  the failure for a \<^verbatim>\<open>Movement\<close> without \<^verbatim>\<open>Placement\<close> is not \<^verbatim>\<open>BadCaveXML\<close>.
\<close>

theorem C7_fromXML_TypeError:
  "ObjectAction_fromXML E [Node node] = Inl TypeError
   \<and> ObjectAction_fromXML E
        [Node (Element ''ObjectChange'' [(''name'', PStr ''Cube'')] PNone
           [Element ''Transition'' [] PNone
              [Element ''MoveRel'' [] PNone [Element ''Placement'' [] PNone []]]])]
       = Inl TypeError
   \<and> ObjectAction_fromXML E
        [Node (Element ''ObjectChange'' [(''name'', PStr ''Cube'')] PNone
           [Element ''Transition'' [] PNone [Element ''Movement'' [] PNone []]])]
       = Inl TypeError"
  by (simp add: ObjectAction_fromXML_call)

section \<open>Serializing a sound\<close>

lemma W3DSound_missing:
  "missing (W3DSound_class E) ''name'' = Inl (KeyError ''name'')"
  "missing (W3DSound_class E) ''filename'' = Inl (KeyError ''filename'')"
  "missing (W3DSound_class E) ''autostart'' = Inr (PBool False)"
  "missing (W3DSound_class E) ''movement_mode'' = Inr (PStr ''Positional'')"
  "missing (W3DSound_class E) ''repetitions'' = Inr (PInt 0)"
  "missing (W3DSound_class E) ''frequency_scale'' = Inr (PInt 1)"
  "missing (W3DSound_class E) ''volume_scale'' = Inr (PInt 1)"
  "missing (W3DSound_class E) ''pan'' = Inr (PInt 0)"
  by (simp_all add: missing_def W3DSound_class_def)

lemma repeat_children_ok:
  assumes "repeat_children E r = (rs, None)"
  shows "\<exists>x. py_num r = Some x \<and>
           rs = [if x < 0 then Element ''RepeatForever'' [] PNone []
                 else if x = 0 then Element ''NoRepeat'' [] PNone []
                 else Element ''RepeatNum'' [] (PStr (py_str E r)) []]"
  using assms
  by (cases "py_num r")
     (auto simp: repeat_children_def py_eq_num_def py_lt_num_def py_gt_num_def Let_def)

lemma then_step_None:
  "then_step b f = (cs, None) \<Longrightarrow> \<exists>cs0. b = (cs0, None) \<and> f cs0 = (cs, None)"
  by (cases b) (auto simp: then_step_def split: option.splits)

lemma toXML_mode_ok:
  "toXML_mode E self cs = (cs', None) \<Longrightarrow>
     \<exists>mode. get (W3DSound_class E) self ''movement_mode'' = Inr (PStr mode)
        \<and> cs' = cs @ [Element ''Mode'' [] PNone [Element mode [] PNone []]]"
  by (auto simp: toXML_mode_def split: sum.splits pyval.splits)

lemma toXML_repeat_ok:
  "toXML_repeat E self cs = (cs', None) \<Longrightarrow>
     \<exists>r rs. get (W3DSound_class E) self ''repetitions'' = Inr r
        \<and> repeat_children E r = (rs, None)
        \<and> cs' = cs @ [Element ''Repeat'' [] PNone rs]"
  by (auto simp: toXML_repeat_def split: sum.splits prod.splits)

lemma toXML_settings_ok:
  "toXML_settings E self cs = (cs', None) \<Longrightarrow>
     \<exists>settings. sound_settings E self attrib_map [] = Inr settings
        \<and> cs' = cs @ [Element ''Settings'' settings PNone []]"
  by (auto simp: toXML_settings_def split: sum.splits)

lemma W3DSound_toXML_ok:
  assumes "W3DSound_toXML E self all_sounds_root = (root', Inr sound_root)"
  shows "\<exists>attrib mode r rs settings.
           sound_attrib E self = Inr attrib
         \<and> get (W3DSound_class E) self ''movement_mode'' = Inr (PStr mode)
         \<and> get (W3DSound_class E) self ''repetitions'' = Inr r
         \<and> repeat_children E r = (rs, None)
         \<and> sound_settings E self attrib_map [] = Inr settings
         \<and> sound_root = Element ''Sound'' attrib PNone
             [Element ''Mode'' [] PNone [Element mode [] PNone []],
              Element ''Repeat'' [] PNone rs,
              Element ''Settings'' settings PNone []]
         \<and> root' = SubElement all_sounds_root sound_root"
proof -
  from assms obtain attrib cs where a: "sound_attrib E self = Inr attrib"
    and b: "then_step (then_step (toXML_mode E self []) (toXML_repeat E self))
              (toXML_settings E self) = (cs, None)"
    and c: "sound_root = Element ''Sound'' attrib PNone cs"
    and d: "root' = SubElement all_sounds_root sound_root"
    by (auto simp: W3DSound_toXML_def Let_def split: sum.splits prod.splits option.splits)
  from then_step_None [OF b] obtain cs2 where
    b2: "then_step (toXML_mode E self []) (toXML_repeat E self) = (cs2, None)"
    and s: "toXML_settings E self cs2 = (cs, None)" by blast
  from then_step_None [OF b2] obtain cs1 where
    m: "toXML_mode E self [] = (cs1, None)" and r: "toXML_repeat E self cs1 = (cs2, None)"
    by blast
  from toXML_mode_ok [OF m] toXML_repeat_ok [OF r] toXML_settings_ok [OF s] a c d
  show ?thesis by auto
qed


section \<open>Round trips\<close>

subsection \<open>str and int on integers\<close>

lemma nat_of_digits_append:
  "nat_of_digits acc (xs @ ys) =
     (case nat_of_digits acc xs of None \<Rightarrow> None | Some m \<Rightarrow> nat_of_digits m ys)"
  by (induction xs arbitrary: acc) auto

lemma digit_char_code: "d < 10 \<Longrightarrow> of_char (digit_char d) = 48 + d"
  by (simp add: digit_char_def)

lemma is_digit_digit_char: "d < 10 \<Longrightarrow> is_digit (digit_char d)"
  by (simp add: is_digit_def digit_char_code)

lemma not_space_digit_char: "d < 10 \<Longrightarrow> \<not> is_space (digit_char d)"
  by (simp add: is_space_def digit_char_code)

lemma nat_of_digits_str_nat: "nat_of_digits 0 (str_nat n) = Some n"
proof (induction n rule: str_nat.induct)
  case (1 n)
  show ?case
  proof (cases "n < 10")
    case True
    then show ?thesis by (subst str_nat.simps) (simp add: is_digit_digit_char digit_char_code)
  next
    case False
    with 1 have "nat_of_digits 0 (str_nat (n div 10)) = Some (n div 10)" by simp
    with False show ?thesis
      by (subst str_nat.simps)
         (simp add: nat_of_digits_append is_digit_digit_char digit_char_code)
  qed
qed

lemma str_nat_digits: "c \<in> set (str_nat n) \<Longrightarrow> is_digit c"
proof (induction n rule: str_nat.induct)
  case (1 n)
  show ?case
  proof (cases "n < 10")
    case True
    with 1(2) show ?thesis
      by (subst (asm) str_nat.simps) (simp add: is_digit_digit_char)
  next
    case False
    with 1 show ?thesis
      by (subst (asm) (2) str_nat.simps) (auto simp: is_digit_digit_char)
  qed
qed

lemma is_digit_not_space: "is_digit c \<Longrightarrow> \<not> is_space c"
  by (simp add: is_digit_def is_space_def Let_def)

lemma is_digit_not_sign: "is_digit c \<Longrightarrow> c \<noteq> CHR ''-'' \<and> c \<noteq> CHR ''+''"
  by (auto simp: is_digit_def)

lemma is_digit_not_underscore: "is_digit c \<Longrightarrow> c \<noteq> CHR ''_''"
  by (auto simp: is_digit_def)

lemma strip_underscores_digits: "\<forall>c \<in> set s. is_digit c \<Longrightarrow> strip_underscores s = Some s"
  by (induction s rule: strip_underscores.induct) (auto dest: is_digit_not_underscore)

lemma str_nat_nonempty: "str_nat n \<noteq> []"
  by (subst str_nat.simps) simp

lemma py_strip_id: "\<forall>c \<in> set s. \<not> is_space c \<Longrightarrow> py_strip s = s"
proof -
  assume a: "\<forall>c \<in> set s. \<not> is_space c"
  have "dropWhile is_space xs = xs" if "\<forall>c \<in> set xs. \<not> is_space c" for xs
    using that by (cases xs) auto
  from this [of s] this [of "rev s"] a show ?thesis by (simp add: py_strip_def)
qed

lemma py_strip_str_nat: "py_strip (str_nat n) = str_nat n"
  by (rule py_strip_id) (auto dest: str_nat_digits is_digit_not_space)

lemma py_int_of_str_nat: "py_int_of_str (str_nat n) = Inr (PInt (int n))"
proof (cases "str_nat n")
  case Nil
  then show ?thesis by (simp add: str_nat_nonempty)
next
  case (Cons c cs)
  then have "is_digit c" using str_nat_digits [of c n] by simp
  then have "c \<noteq> CHR ''-''" "c \<noteq> CHR ''+''" by (simp_all add: is_digit_not_sign)
  moreover have "strip_underscores (c # cs) = Some (c # cs)"
    using strip_underscores_digits [of "str_nat n"] str_nat_digits [of _ n] Cons by auto
  then have "parse_nat (c # cs) = Some n"
    using nat_of_digits_str_nat [of n] Cons by (simp add: parse_nat_def del: nat_of_digits.simps)
  moreover have "py_strip (c # cs) = c # cs"
    using py_strip_str_nat [of n] Cons by simp
  ultimately show ?thesis
    using Cons by (simp add: py_int_of_str_def)
qed

lemma int_of_str_int:
  "0 \<le> n \<Longrightarrow> py_int_of_str (py_strip (str_int n)) = Inr (PInt n)"
  by (simp add: str_int_def py_strip_str_nat py_int_of_str_nat)


subsection \<open>A sound\<close>

lemma valid_feature_stored:
  assumes "valid_feature K x" and "map_of x k = Some v"
  shows "\<exists>valid. argument_validators K k = Some valid \<and> valid v"
proof -
  from assms(2) have "(k, v) \<in> set x" by (rule map_of_SomeD)
  with assms(1) show ?thesis
    by (auto simp: valid_feature_def list_all_iff split: option.splits)
qed

lemma W3DSound_validators:
  "argument_validators (W3DSound_class E) ''name'' = Some (valid_pystring E)"
  "argument_validators (W3DSound_class E) ''filename'' = Some (valid_file E)"
  "argument_validators (W3DSound_class E) ''autostart'' = Some IsBoolean"
  "argument_validators (W3DSound_class E) ''movement_mode'' = Some (OptionListValidator movement_modes)"
  "argument_validators (W3DSound_class E) ''repetitions'' = Some (IsNumeric None None)"
  "argument_validators (W3DSound_class E) ''frequency_scale'' = Some (IsNumeric (Some (1 / 2)) (Some 2))"
  "argument_validators (W3DSound_class E) ''volume_scale'' = Some (IsNumeric (Some 0) (Some 2))"
  "argument_validators (W3DSound_class E) ''pan'' = Some (IsNumeric (Some (- 1)) (Some 1))"
  by (simp_all add: W3DSound_class_def)

lemma W3DSound_defaults:
  "default_arguments (W3DSound_class E) ''autostart'' = Some (PBool False)"
  "default_arguments (W3DSound_class E) ''frequency_scale'' = Some (PInt 1)"
  "default_arguments (W3DSound_class E) ''volume_scale'' = Some (PInt 1)"
  "default_arguments (W3DSound_class E) ''pan'' = Some (PInt 0)"
  by (simp_all add: W3DSound_class_def)

lemma is_default_sound:
  "k \<in> {''autostart'', ''frequency_scale'', ''volume_scale'', ''pan''} \<Longrightarrow>
   is_default (W3DSound_class E) x k \<longleftrightarrow> map_of x k = None"
  by (auto simp: is_default_def contains_def W3DSound_defaults)

lemma sound_attrib_eq:
  assumes "map_of x ''name'' = Some (PStr nm)" and "map_of x ''filename'' = Some (PStr fn)"
  shows "sound_attrib E x =
     (case map_of x ''autostart'' of
        None \<Rightarrow> Inr [(''name'', PStr nm), (''filename'', PStr fn)]
      | Some b \<Rightarrow>
          (case bool2text E b of
             Inl e \<Rightarrow> Inl e
           | Inr t \<Rightarrow> Inr [(''name'', PStr nm), (''filename'', PStr fn), (''autostart'', t)]))"
  using assms
  by (simp add: sound_attrib_def get_stored is_default_sound py_str_def bind_err_def
      split: option.splits sum.splits)

lemma sound_mode:
  assumes "valid_feature (W3DSound_class E) x"
  shows "\<exists>mode \<in> set movement_modes.
           get (W3DSound_class E) x ''movement_mode'' = Inr (PStr mode)
         \<and> (\<forall>v. map_of x ''movement_mode'' = Some v \<longrightarrow> v = PStr mode)"
proof (cases "map_of x ''movement_mode''")
  case None
  then show ?thesis by (simp add: get_absent W3DSound_missing movement_modes_def)
next
  case (Some v)
  from valid_feature_stored [OF assms Some]
  have "OptionListValidator movement_modes v" by (simp add: W3DSound_validators)
  then obtain mode where "mode \<in> set movement_modes" "v = PStr mode"
    by (auto simp: OptionListValidator_def)
  with Some show ?thesis by (auto simp: get_stored)
qed

lemma toXML_mode_eq:
  "get (W3DSound_class E) x ''movement_mode'' = Inr (PStr mode) \<Longrightarrow>
   toXML_mode E x cs = (cs @ [Element ''Mode'' [] PNone [Element mode [] PNone []]], None)"
  by (simp add: toXML_mode_def)

lemma repeat_children_int:
  "repeat_children E (PInt n) =
     ([if n < 0 then Element ''RepeatForever'' [] PNone []
       else if n = 0 then Element ''NoRepeat'' [] PNone []
       else Element ''RepeatNum'' [] (PStr (str_int n)) []], None)"
  by (simp add: repeat_children_def py_eq_num_def py_lt_num_def py_gt_num_def py_str_def)

lemma toXML_repeat_int:
  "get (W3DSound_class E) x ''repetitions'' = Inr (PInt n) \<Longrightarrow>
   toXML_repeat E x cs =
     (cs @ [Element ''Repeat'' [] PNone
              [if n < 0 then Element ''RepeatForever'' [] PNone []
               else if n = 0 then Element ''NoRepeat'' [] PNone []
               else Element ''RepeatNum'' [] (PStr (str_int n)) []]], None)"
  by (simp add: toXML_repeat_def repeat_children_int)

lemma fromXML_repeat_int:
  assumes "find_child sound_root ''Repeat'' =
     Some (Element ''Repeat'' [] PNone
              [if n < 0 then Element ''RepeatForever'' [] PNone []
               else if n = 0 then Element ''NoRepeat'' [] PNone []
               else Element ''RepeatNum'' [] (PStr (str_int n)) []])"
  shows "fromXML_repeat E sound_root a =
           Inr (AList.update ''repetitions'' (PInt (if n < 0 then - 1 else n)) a)"
proof -
  have v: "setitem (W3DSound_class E) ''repetitions'' (PInt m) a
             = Inr (AList.update ''repetitions'' (PInt m) a)" for m
    by (simp add: setitem_def W3DSound_validators IsNumeric_def is_number_def)
  consider "n < 0" | "n = 0" | "0 < n" by linarith
  then show ?thesis
  proof cases
    case 1
    with assms show ?thesis by (simp add: fromXML_repeat_def find_child_def v)
  next
    case 2
    with assms show ?thesis by (simp add: fromXML_repeat_def find_child_def v)
  next
    case 3
    then have "py_int_of_str (py_strip (str_int n)) = Inr (PInt n)"
      by (simp add: int_of_str_int)
    with 3 assms show ?thesis
      by (simp add: fromXML_repeat_def find_child_def v repeat_num_def bind_err_def)
  qed
qed


lemma sound_settings_eq:
  "\<exists>S. sound_settings E x attrib_map [] = Inr S
     \<and> map_of S ''freq'' = map_option (\<lambda>v. PStr (py_str E v)) (map_of x ''frequency_scale'')
     \<and> map_of S ''volume'' = map_option (\<lambda>v. PStr (py_str E v)) (map_of x ''volume_scale'')
     \<and> map_of S ''pan'' = map_option (\<lambda>v. PStr (py_str E v)) (map_of x ''pan'')"
  by (cases "map_of x ''frequency_scale''"; cases "map_of x ''volume_scale''";
      cases "map_of x ''pan''")
     (simp_all add: attrib_map_def is_default_sound get_stored bind_err_def)

lemma toXML_settings_eq:
  "sound_settings E x attrib_map [] = Inr S \<Longrightarrow>
   toXML_settings E x cs = (cs @ [Element ''Settings'' S PNone []], None)"
  by (simp add: toXML_settings_def)

lemma read_settings_invariant:
  assumes "distinct (map snd km)"
    and "\<forall>(key, attr) \<in> set km.
           case map_of (el_attrib node) key of
             None \<Rightarrow> True
           | Some t \<Rightarrow> (\<exists>q valid. py_float E t = Inr (PFloat q)
                          \<and> argument_validators (W3DSound_class E) attr = Some valid
                          \<and> valid (PFloat q))"
  shows "\<exists>y. read_settings E node km a = Inr y
           \<and> (\<forall>k. k \<notin> snd ` set km \<longrightarrow> map_of y k = map_of a k)
           \<and> (\<forall>(key, attr) \<in> set km.
                 case map_of (el_attrib node) key of
                   None \<Rightarrow> map_of y attr = map_of a attr
                 | Some t \<Rightarrow> (\<exists>q. py_float E t = Inr (PFloat q)
                                \<and> map_of y attr = Some (PFloat q)))"
  using assms
proof (induction km arbitrary: a)
  case Nil
  then show ?case by simp
next
  case (Cons ka km)
  obtain key attr where ka: "ka = (key, attr)" by (cases ka)
  from Cons.prems ka have d: "distinct (map snd km)" and n: "attr \<notin> snd ` set km" by auto
  from Cons.prems(2) have rest: "\<forall>(key, attr) \<in> set km.
           case map_of (el_attrib node) key of
             None \<Rightarrow> True
           | Some t \<Rightarrow> (\<exists>q valid. py_float E t = Inr (PFloat q)
                          \<and> argument_validators (W3DSound_class E) attr = Some valid
                          \<and> valid (PFloat q))" by simp
  show ?case
  proof (cases "map_of (el_attrib node) key")
    case None
    from Cons.IH [OF d rest, of a] obtain y where
      y: "read_settings E node km a = Inr y"
         "\<forall>k. k \<notin> snd ` set km \<longrightarrow> map_of y k = map_of a k"
         "\<forall>(key, attr) \<in> set km.
                 case map_of (el_attrib node) key of
                   None \<Rightarrow> map_of y attr = map_of a attr
                 | Some t \<Rightarrow> (\<exists>q. py_float E t = Inr (PFloat q)
                                \<and> map_of y attr = Some (PFloat q))" by blast
    from y n None ka show ?thesis by auto
  next
    case (Some t)
    with Cons.prems(2) ka obtain q valid where
      q: "py_float E t = Inr (PFloat q)"
         "argument_validators (W3DSound_class E) attr = Some valid" "valid (PFloat q)"
      by auto
    define a' where "a' = AList.update attr (PFloat q) a"
    have s: "setitem (W3DSound_class E) attr (PFloat q) a = Inr a'"
      using q by (simp add: setitem_def a'_def)
    from Cons.IH [OF d rest, of a'] obtain y where
      y: "read_settings E node km a' = Inr y"
         "\<forall>k. k \<notin> snd ` set km \<longrightarrow> map_of y k = map_of a' k"
         "\<forall>(key, attr) \<in> set km.
                 case map_of (el_attrib node) key of
                   None \<Rightarrow> map_of y attr = map_of a' attr
                 | Some t \<Rightarrow> (\<exists>q. py_float E t = Inr (PFloat q)
                                \<and> map_of y attr = Some (PFloat q))" by blast
    have r: "read_settings E node (ka # km) a = Inr y"
      using Some q s y(1) ka by (simp add: bind_err_def)
    have f: "\<forall>k. k \<notin> snd ` set (ka # km) \<longrightarrow> map_of y k = map_of a k"
      using y(2) ka by (auto simp: a'_def update_conv')
    have h: "map_of y attr = Some (PFloat q)"
      using y(2) n by (simp add: a'_def update_conv')
    have o: "case map_of (el_attrib node) key' of
                   None \<Rightarrow> map_of y attr' = map_of a attr'
                 | Some t \<Rightarrow> (\<exists>q. py_float E t = Inr (PFloat q)
                                \<and> map_of y attr' = Some (PFloat q))"
      if "(key', attr') \<in> set km" for key' attr'
    proof -
      from that n have "attr' \<noteq> attr" by force
      then have "map_of a' attr' = map_of a attr'" by (simp add: a'_def update_conv')
      with y(3) that show ?thesis by (auto split: option.splits)
    qed
    have o': "\<forall>(key, attr) \<in> set (ka # km).
                 case map_of (el_attrib node) key of
                   None \<Rightarrow> map_of y attr = map_of a attr
                 | Some t \<Rightarrow> (\<exists>q. py_float E t = Inr (PFloat q)
                                \<and> map_of y attr = Some (PFloat q))"
    proof (intro ballI, clarify)
      fix key' attr'
      assume "(key', attr') \<in> set (ka # km)"
      then consider "key' = key" "attr' = attr" | "(key', attr') \<in> set km"
        using ka by auto
      then show "case map_of (el_attrib node) key' of
                   None \<Rightarrow> map_of y attr' = map_of a attr'
                 | Some t \<Rightarrow> (\<exists>q. py_float E t = Inr (PFloat q)
                                \<and> map_of y attr' = Some (PFloat q))"
      proof cases
        case 1
        with Some q(1) h show ?thesis by simp
      next
        case 2
        then show ?thesis by (rule o)
      qed
    qed
    from r f o' show ?thesis by blast
  qed
qed

lemma IsNumeric_number:
  "IsNumeric lo hi v \<Longrightarrow> is_number v = Some q \<Longrightarrow> IsNumeric lo hi (PFloat q)"
  by (simp add: IsNumeric_def is_number_def)


lemma first_mode_single:
  "mode \<in> set movement_modes \<Longrightarrow>
   first_mode (Element ''Mode'' [] PNone [Element mode [] PNone []]) movement_modes = Some mode"
  by (auto simp: movement_modes_def find_child_def)

lemma fromXML_mode_eq:
  assumes "find_child X ''Mode'' = Some (Element ''Mode'' [] PNone [Element mode [] PNone []])"
    and "mode \<in> set movement_modes"
  shows "fromXML_mode E X a = Inr (AList.update ''movement_mode'' (PStr mode) a)"
proof -
  have "setitem (W3DSound_class E) ''movement_mode'' (PStr mode) a
          = Inr (AList.update ''movement_mode'' (PStr mode) a)"
    using assms(2) by (simp add: setitem_def W3DSound_validators OptionListValidator_def)
  with assms show ?thesis
    by (simp add: fromXML_mode_def first_mode_single bind_err_def contains_def update_conv')
qed

lemma sound_settings_readable:
  assumes v: "valid_feature (W3DSound_class E) x"
    and r: "list_all (\<lambda>k. case map_of x k of
                      None \<Rightarrow> True
                    | Some v \<Rightarrow> reads_back E (PStr (py_str E v)) v)
             [''frequency_scale'', ''volume_scale'', ''pan'']"
    and k: "(key, attr) \<in> set xml_map"
    and m: "map_of S key = map_option (\<lambda>v. PStr (py_str E v)) (map_of x attr)"
  shows "case map_of S key of
           None \<Rightarrow> map_of x attr = None
         | Some t \<Rightarrow> (\<exists>v q valid. map_of x attr = Some v \<and> is_number v = Some q
                        \<and> py_float E t = Inr (PFloat q)
                        \<and> argument_validators (W3DSound_class E) attr = Some valid
                        \<and> valid (PFloat q))"
proof (cases "map_of x attr")
  case None
  with m show ?thesis by simp
next
  case (Some v)
  from k have a: "attr \<in> {''frequency_scale'', ''volume_scale'', ''pan''}"
    by (auto simp: xml_map_def)
  with r Some have "reads_back E (PStr (py_str E v)) v" by auto
  then obtain q where q: "is_number v = Some q" "py_float E (PStr (py_str E v)) = Inr (PFloat q)"
    by (auto simp: reads_back_def split: option.splits)
  from valid_feature_stored [OF v Some] obtain valid where
    w: "argument_validators (W3DSound_class E) attr = Some valid" "valid v" by blast
  from a w q(1) have "valid (PFloat q)"
    by (auto simp: W3DSound_validators dest: IsNumeric_number)
  with Some m q w(1) show ?thesis by simp
qed


lemma W3DSound_roundtrip:
  assumes r: "sound_ready E x"
  shows "\<exists>X y. W3DSound_toXML E x all_sounds_root = (SubElement all_sounds_root X, Inr X)
           \<and> W3DSound_fromXML E X = Inr y \<and> sound_agrees x y"
proof -
  let ?K = "W3DSound_class E"
  from r have v: "valid_feature ?K x"
    and rs: "list_all (\<lambda>k. case map_of x k of
                      None \<Rightarrow> True
                    | Some v \<Rightarrow> reads_back E (PStr (py_str E v)) v)
             [''frequency_scale'', ''volume_scale'', ''pan'']"
    by (simp_all add: sound_ready_def)
  from r have "stored_str x ''name''" "stored_str x ''filename''"
    by (simp_all add: sound_ready_def)
  then obtain nm fn where nm: "map_of x ''name'' = Some (PStr nm)"
    and fn: "map_of x ''filename'' = Some (PStr fn)"
    by (auto simp: stored_str_def is_str_def split: option.splits pyval.splits)
  \<comment> \<open>serializing\<close>
  obtain A where A: "sound_attrib E x = Inr A" "map_of A ''name'' = Some (PStr nm)"
      "map_of A ''filename'' = Some (PStr fn)"
    and Aa: "case map_of x ''autostart'' of
               None \<Rightarrow> map_of A ''autostart'' = None
             | Some b \<Rightarrow> (\<exists>t. map_of A ''autostart'' = Some t \<and> text2bool E t = Inr b)"
  proof (cases "map_of x ''autostart''")
    case None
    show ?thesis
      by (rule that [of "[(''name'', PStr nm), (''filename'', PStr fn)]"])
         (simp_all add: sound_attrib_eq [OF nm fn] None)
  next
    case (Some b)
    with r have "bool_roundtrip E b" by (simp add: sound_ready_def)
    then obtain t where t: "bool2text E b = Inr t" "text2bool E t = Inr b"
      by (auto simp: bool_roundtrip_def split: sum.splits)
    show ?thesis
      by (rule that [of "[(''name'', PStr nm), (''filename'', PStr fn), (''autostart'', t)]"])
         (simp_all add: sound_attrib_eq [OF nm fn] Some t)
  qed
  from sound_mode [OF v] obtain mode where mode: "mode \<in> set movement_modes"
      "get ?K x ''movement_mode'' = Inr (PStr mode)"
      "\<forall>v. map_of x ''movement_mode'' = Some v \<longrightarrow> v = PStr mode" by blast
  obtain n where n: "get ?K x ''repetitions'' = Inr (PInt n)"
    and xn: "\<forall>w. map_of x ''repetitions'' = Some w \<longrightarrow> w = PInt n"
  proof (cases "map_of x ''repetitions''")
    case None
    show ?thesis by (rule that [of 0]) (simp_all add: None get_absent W3DSound_missing)
  next
    case (Some w)
    with r have "is_int w" by (simp add: sound_ready_def)
    then obtain m where "w = PInt m"
      by (auto simp: is_int_def split: pyval.splits)
    with Some show ?thesis by (intro that [of m]) (simp_all add: get_stored)
  qed
  from sound_settings_eq [of E x] obtain S where S: "sound_settings E x attrib_map [] = Inr S"
    and Sm: "map_of S ''freq'' = map_option (\<lambda>v. PStr (py_str E v)) (map_of x ''frequency_scale'')"
      "map_of S ''volume'' = map_option (\<lambda>v. PStr (py_str E v)) (map_of x ''volume_scale'')"
      "map_of S ''pan'' = map_option (\<lambda>v. PStr (py_str E v)) (map_of x ''pan'')"
    by blast
  define R where "R = Element ''Repeat'' [] PNone
              [if n < 0 then Element ''RepeatForever'' [] PNone []
               else if n = 0 then Element ''NoRepeat'' [] PNone []
               else Element ''RepeatNum'' [] (PStr (str_int n)) []]"
  define X where "X = Element ''Sound'' A PNone
     [Element ''Mode'' [] PNone [Element mode [] PNone []], R, Element ''Settings'' S PNone []]"
  have tx: "W3DSound_toXML E x all_sounds_root = (SubElement all_sounds_root X, Inr X)"
    by (simp add: W3DSound_toXML_def A toXML_mode_eq [OF mode(2)] toXML_repeat_int [OF n]
        toXML_settings_eq [OF S] X_def R_def Let_def)
  \<comment> \<open>parsing\<close>
  have fc: "find_child X ''Mode'' = Some (Element ''Mode'' [] PNone [Element mode [] PNone []])"
    "find_child X ''Repeat'' = Some R" "find_child X ''Settings'' = Some (Element ''Settings'' S PNone [])"
    by (simp_all add: X_def R_def find_child_def)
  have at: "el_attrib X = A" by (simp add: X_def)
  define a1 where "a1 = [(''name'', PStr nm), (''filename'', PStr fn)]"
  have p1: "fromXML_name E X [] = Inr a1"
  proof -
    from valid_feature_stored [OF v nm] valid_feature_stored [OF v fn]
    have "valid_pystring E (PStr nm)" "valid_file E (PStr fn)"
      by (simp_all add: W3DSound_validators)
    then show ?thesis
      by (simp add: fromXML_name_def at A setitem_def W3DSound_validators bind_err_def a1_def)
  qed
  obtain a2 where p2: "fromXML_autostart E X a1 = Inr a2"
    and m2: "map_of a2 ''name'' = Some (PStr nm)" "map_of a2 ''filename'' = Some (PStr fn)"
      "map_of a2 ''autostart'' = map_of x ''autostart''"
  proof (cases "map_of x ''autostart''")
    case None
    with Aa show ?thesis
      by (intro that [of a1]) (simp_all add: fromXML_autostart_def at a1_def)
  next
    case (Some b)
    with Aa obtain t where t: "map_of A ''autostart'' = Some t" "text2bool E t = Inr b" by auto
    from valid_feature_stored [OF v Some] have "IsBoolean b" by (simp add: W3DSound_validators)
    then have "setitem ?K ''autostart'' b a1 = Inr (AList.update ''autostart'' b a1)"
      by (simp add: setitem_def W3DSound_validators)
    with t Some show ?thesis
      by (intro that [of "AList.update ''autostart'' b a1"])
         (simp_all add: fromXML_autostart_def at bind_err_def update_conv' a1_def)
  qed
  define a3 where "a3 = AList.update ''movement_mode'' (PStr mode) a2"
  have p3: "fromXML_mode E X a2 = Inr a3"
    by (simp add: fromXML_mode_eq [OF fc(1) mode(1)] a3_def)
  define a4 where "a4 = AList.update ''repetitions'' (PInt (if n < 0 then - 1 else n)) a3"
  have p4: "fromXML_repeat E X a3 = Inr a4"
    using fc(2) by (simp add: fromXML_repeat_int R_def a4_def)
  have m4: "map_of a4 ''name'' = Some (PStr nm)" "map_of a4 ''filename'' = Some (PStr fn)"
      "map_of a4 ''autostart'' = map_of x ''autostart''"
      "map_of a4 ''movement_mode'' = Some (PStr mode)"
      "map_of a4 ''repetitions'' = Some (PInt (if n < 0 then - 1 else n))"
    by (simp_all add: a4_def a3_def update_conv' m2)
  have rd: "\<forall>(key, attr) \<in> set xml_map.
           case map_of (el_attrib (Element ''Settings'' S PNone [])) key of
             None \<Rightarrow> True
           | Some t \<Rightarrow> (\<exists>q valid. py_float E t = Inr (PFloat q)
                          \<and> argument_validators ?K attr = Some valid
                          \<and> valid (PFloat q))"
  proof (intro ballI, clarify)
    fix key attr
    assume k: "(key, attr) \<in> set xml_map"
    then have "map_of S key = map_option (\<lambda>v. PStr (py_str E v)) (map_of x attr)"
      using Sm by (auto simp: xml_map_def)
    from sound_settings_readable [OF v rs k this]
    show "case map_of (el_attrib (Element ''Settings'' S PNone [])) key of
             None \<Rightarrow> True
           | Some t \<Rightarrow> (\<exists>q valid. py_float E t = Inr (PFloat q)
                          \<and> argument_validators ?K attr = Some valid
                          \<and> valid (PFloat q))"
      by (auto split: option.splits)
  qed
  have "distinct (map snd xml_map)" by (simp add: xml_map_def)
  from read_settings_invariant [OF this rd, of a4] obtain y where
    p5: "read_settings E (Element ''Settings'' S PNone []) xml_map a4 = Inr y"
    and fr: "\<forall>k. k \<notin> snd ` set xml_map \<longrightarrow> map_of y k = map_of a4 k"
    and st: "\<forall>(key, attr) \<in> set xml_map.
                 case map_of (el_attrib (Element ''Settings'' S PNone [])) key of
                   None \<Rightarrow> map_of y attr = map_of a4 attr
                 | Some t \<Rightarrow> (\<exists>q. py_float E t = Inr (PFloat q)
                                \<and> map_of y attr = Some (PFloat q))"
    by blast
  have px: "W3DSound_fromXML E X = Inr y"
    by (simp add: W3DSound_fromXML_def p1 p2 p3 p4 bind_err_def fromXML_settings_def fc(3) p5)
  \<comment> \<open>agreement\<close>
  have keep: "map_of y k = map_of a4 k"
    if "k \<in> {''name'', ''filename'', ''autostart'', ''movement_mode'', ''repetitions''}" for k
  proof -
    from that have "k \<notin> snd ` set xml_map" by (auto simp: xml_map_def)
    with fr show ?thesis by blast
  qed
  have s1: "list_all (same_at x y) [''name'', ''filename'', ''autostart'', ''movement_mode'']"
    using mode(3) by (simp add: same_at_def keep m4 nm fn split: option.splits)
  have s2: "repetitions_at x y"
    using xn by (cases "map_of x ''repetitions''") (auto simp: repetitions_at_def keep m4)
  have s3: "number_at x y attr" if k: "(key, attr) \<in> set xml_map" for key attr
  proof (cases "map_of x attr")
    case None
    then show ?thesis by (simp add: number_at_def)
  next
    case (Some w)
    from k have "map_of S key = map_option (\<lambda>v. PStr (py_str E v)) (map_of x attr)"
      using Sm by (auto simp: xml_map_def)
    from sound_settings_readable [OF v rs k this] Some
    obtain q where q: "map_of S key = Some (PStr (py_str E w))" "is_number w = Some q"
      "py_float E (PStr (py_str E w)) = Inr (PFloat q)"
      using \<open>map_of S key = map_option (\<lambda>v. PStr (py_str E v)) (map_of x attr)\<close>
      by (auto split: option.splits)
    from st k q have "map_of y attr = Some (PFloat q)" by fastforce
    with Some q(2) show ?thesis by (simp add: number_at_def is_number_def)
  qed
  have "list_all (number_at x y) [''frequency_scale'', ''volume_scale'', ''pan'']"
    using s3 [of "''freq''" "''frequency_scale''"] s3 [of "''volume''" "''volume_scale''"]
      s3 [of "''pan''" "''pan''"]
    by (simp add: xml_map_def)
  with s1 s2 have "sound_agrees x y" by (simp add: sound_agrees_def)
  with tx px show ?thesis by blast
qed

subsection \<open>The Repeat child of a sound\<close>

lemma str_int_3: "str_int 3 = ''3''"
  by code_simp

lemma repeat_children_num:
  assumes "py_num r = Some x"
  shows "repeat_children E r =
           ([if x < 0 then Element ''RepeatForever'' [] PNone []
             else if x = 0 then Element ''NoRepeat'' [] PNone []
             else Element ''RepeatNum'' [] (PStr (py_str E r)) []], None)"
  using assms
  by (simp add: repeat_children_def py_eq_num_def py_lt_num_def py_gt_num_def Let_def)

lemma sound_attrib_ok:
  assumes "map_of self ''name'' \<noteq> None" and "map_of self ''filename'' \<noteq> None"
    and "\<forall>v. map_of self ''autostart'' = Some v \<longrightarrow> (\<exists>t. bool2text E v = Inr t)"
  shows "\<exists>attrib. sound_attrib E self = Inr attrib"
proof -
  from assms(1,2) obtain nm fn where n: "map_of self ''name'' = Some nm"
    "map_of self ''filename'' = Some fn" by auto
  show ?thesis
  proof (cases "map_of self ''autostart''")
    case None
    with n show ?thesis by (simp add: sound_attrib_def get_stored is_default_sound)
  next
    case (Some v)
    with assms(3) obtain t where "bool2text E v = Inr t" by auto
    with n Some show ?thesis
      by (simp add: sound_attrib_def get_stored is_default_sound bind_err_def)
  qed
qed

lemma sound_mode_str:
  assumes "\<forall>v. map_of self ''movement_mode'' = Some v \<longrightarrow> is_str v"
  shows "\<exists>mode. get (W3DSound_class E) self ''movement_mode'' = Inr (PStr mode)"
proof (cases "map_of self ''movement_mode''")
  case None
  then show ?thesis by (simp add: get_absent W3DSound_missing)
next
  case (Some v)
  with assms have "is_str v" by simp
  then obtain mode where "v = PStr mode" by (auto simp: is_str_def split: pyval.splits)
  with Some show ?thesis by (simp add: get_stored)
qed

lemma W3DSound_toXML_succeeds:
  assumes "map_of self ''name'' \<noteq> None" and "map_of self ''filename'' \<noteq> None"
    and "\<forall>v. map_of self ''autostart'' = Some v \<longrightarrow> (\<exists>t. bool2text E v = Inr t)"
    and "\<forall>v. map_of self ''movement_mode'' = Some v \<longrightarrow> is_str v"
    and "get (W3DSound_class E) self ''repetitions'' = Inr r" and "py_num r = Some x"
  shows "\<exists>attrib mode settings.
           W3DSound_toXML E self all_sounds_root =
             (SubElement all_sounds_root
                (Element ''Sound'' attrib PNone
                   [Element ''Mode'' [] PNone [Element mode [] PNone []],
                    Element ''Repeat'' [] PNone
                      [if x < 0 then Element ''RepeatForever'' [] PNone []
                       else if x = 0 then Element ''NoRepeat'' [] PNone []
                       else Element ''RepeatNum'' [] (PStr (py_str E r)) []],
                    Element ''Settings'' settings PNone []]),
              Inr (Element ''Sound'' attrib PNone
                   [Element ''Mode'' [] PNone [Element mode [] PNone []],
                    Element ''Repeat'' [] PNone
                      [if x < 0 then Element ''RepeatForever'' [] PNone []
                       else if x = 0 then Element ''NoRepeat'' [] PNone []
                       else Element ''RepeatNum'' [] (PStr (py_str E r)) []],
                    Element ''Settings'' settings PNone []]))"
proof -
  from sound_attrib_ok [OF assms(1,2,3)] obtain attrib where
    a: "sound_attrib E self = Inr attrib" by blast
  from sound_mode_str [OF assms(4)] obtain mode where
    m: "get (W3DSound_class E) self ''movement_mode'' = Inr (PStr mode)" by blast
  from sound_settings_eq [of E self] obtain settings where
    s: "sound_settings E self attrib_map [] = Inr settings" by blast
  have r: "toXML_repeat E self cs =
      (cs @ [Element ''Repeat'' [] PNone
              [if x < 0 then Element ''RepeatForever'' [] PNone []
               else if x = 0 then Element ''NoRepeat'' [] PNone []
               else Element ''RepeatNum'' [] (PStr (py_str E r)) []]], None)" for cs
    by (simp add: toXML_repeat_def assms(5) repeat_children_num [OF assms(6)])
  have "W3DSound_toXML E self all_sounds_root =
             (SubElement all_sounds_root
                (Element ''Sound'' attrib PNone
                   [Element ''Mode'' [] PNone [Element mode [] PNone []],
                    Element ''Repeat'' [] PNone
                      [if x < 0 then Element ''RepeatForever'' [] PNone []
                       else if x = 0 then Element ''NoRepeat'' [] PNone []
                       else Element ''RepeatNum'' [] (PStr (py_str E r)) []],
                    Element ''Settings'' settings PNone []]),
              Inr (Element ''Sound'' attrib PNone
                   [Element ''Mode'' [] PNone [Element mode [] PNone []],
                    Element ''Repeat'' [] PNone
                      [if x < 0 then Element ''RepeatForever'' [] PNone []
                       else if x = 0 then Element ''NoRepeat'' [] PNone []
                       else Element ''RepeatNum'' [] (PStr (py_str E r)) []],
                    Element ''Settings'' settings PNone []]))"
    by (simp add: W3DSound_toXML_def a toXML_mode_eq [OF m] r toXML_settings_eq [OF s] Let_def)
  then show ?thesis by blast
qed

text \<open>
  C8. Let a sound have \<open>name\<close> and \<open>filename\<close>, a stored \<open>movement_mode\<close> that is a string
  and a stored \<open>autostart\<close> that \<open>bool2text\<close> accepts, and let \<open>self["repetitions"]\<close> be a
  number (the default 0 when none is stored). Then serializing returns the \<^verbatim>\<open>Sound\<close> node,
  and the \<^verbatim>\<open>Repeat\<close> child of that node has exactly one child: a \<^verbatim>\<open>RepeatForever\<close> node
  without text and children when the number is negative, \<open>-1\<close> included; a \<^verbatim>\<open>NoRepeat\<close>
  node without text and children when it is 0; a \<^verbatim>\<open>RepeatNum\<close> node whose text is \<open>str\<close> of
  the number when it is positive, which is \<open>"3"\<close> for 3. Whenever serializing returns a
  node at all, its \<^verbatim>\<open>Repeat\<close> child is that one.
\<close>

theorem C8_repeat:
  "(map_of self ''name'' \<noteq> None \<and> map_of self ''filename'' \<noteq> None
      \<and> (\<forall>v. map_of self ''autostart'' = Some v \<longrightarrow> (\<exists>t. bool2text E v = Inr t))
      \<and> (\<forall>v. map_of self ''movement_mode'' = Some v \<longrightarrow> is_str v)
      \<and> get (W3DSound_class E) self ''repetitions'' = Inr r \<and> py_num r = Some x \<longrightarrow>
      (\<exists>sound_root.
          W3DSound_toXML E self all_sounds_root
            = (SubElement all_sounds_root sound_root, Inr sound_root)
        \<and> find_child sound_root ''Repeat''
            = Some (Element ''Repeat'' [] PNone
                [if x < 0 then Element ''RepeatForever'' [] PNone []
                 else if x = 0 then Element ''NoRepeat'' [] PNone []
                 else Element ''RepeatNum'' [] (PStr (py_str E r)) []])))
   \<and> (\<forall>root' sound_root r.
       W3DSound_toXML E self all_sounds_root = (root', Inr sound_root)
       \<and> get (W3DSound_class E) self ''repetitions'' = Inr r \<longrightarrow>
       (\<exists>x. py_num r = Some x
          \<and> find_child sound_root ''Repeat''
              = Some (Element ''Repeat'' [] PNone
                  [if x < 0 then Element ''RepeatForever'' [] PNone []
                   else if x = 0 then Element ''NoRepeat'' [] PNone []
                   else Element ''RepeatNum'' [] (PStr (py_str E r)) []])))
   \<and> (map_of self ''repetitions'' = None \<longrightarrow>
         get (W3DSound_class E) self ''repetitions'' = Inr (PInt 0))
   \<and> py_num (PInt (- 1)) = Some (- 1) \<and> py_num (PInt 3) = Some 3
   \<and> py_str E (PInt 3) = ''3''"
proof (intro conjI allI impI; (elim conjE)?)
  assume h: "map_of self ''name'' \<noteq> None" "map_of self ''filename'' \<noteq> None"
    "\<forall>v. map_of self ''autostart'' = Some v \<longrightarrow> (\<exists>t. bool2text E v = Inr t)"
    "\<forall>v. map_of self ''movement_mode'' = Some v \<longrightarrow> is_str v"
    "get (W3DSound_class E) self ''repetitions'' = Inr r" "py_num r = Some x"
  from W3DSound_toXML_succeeds [OF h, of all_sounds_root] obtain attrib mode settings where
    t: "W3DSound_toXML E self all_sounds_root =
             (SubElement all_sounds_root
                (Element ''Sound'' attrib PNone
                   [Element ''Mode'' [] PNone [Element mode [] PNone []],
                    Element ''Repeat'' [] PNone
                      [if x < 0 then Element ''RepeatForever'' [] PNone []
                       else if x = 0 then Element ''NoRepeat'' [] PNone []
                       else Element ''RepeatNum'' [] (PStr (py_str E r)) []],
                    Element ''Settings'' settings PNone []]),
              Inr (Element ''Sound'' attrib PNone
                   [Element ''Mode'' [] PNone [Element mode [] PNone []],
                    Element ''Repeat'' [] PNone
                      [if x < 0 then Element ''RepeatForever'' [] PNone []
                       else if x = 0 then Element ''NoRepeat'' [] PNone []
                       else Element ''RepeatNum'' [] (PStr (py_str E r)) []],
                    Element ''Settings'' settings PNone []]))"
    by blast
  have "find_child (Element ''Sound'' attrib PNone
                   [Element ''Mode'' [] PNone [Element mode [] PNone []],
                    Element ''Repeat'' [] PNone
                      [if x < 0 then Element ''RepeatForever'' [] PNone []
                       else if x = 0 then Element ''NoRepeat'' [] PNone []
                       else Element ''RepeatNum'' [] (PStr (py_str E r)) []],
                    Element ''Settings'' settings PNone []]) ''Repeat''
        = Some (Element ''Repeat'' [] PNone
                [if x < 0 then Element ''RepeatForever'' [] PNone []
                 else if x = 0 then Element ''NoRepeat'' [] PNone []
                 else Element ''RepeatNum'' [] (PStr (py_str E r)) []])"
    by (simp add: find_child_def)
  with t show "\<exists>sound_root.
          W3DSound_toXML E self all_sounds_root
            = (SubElement all_sounds_root sound_root, Inr sound_root)
        \<and> find_child sound_root ''Repeat''
            = Some (Element ''Repeat'' [] PNone
                [if x < 0 then Element ''RepeatForever'' [] PNone []
                 else if x = 0 then Element ''NoRepeat'' [] PNone []
                 else Element ''RepeatNum'' [] (PStr (py_str E r)) []])"
    by blast
next
  fix root' sound_root r
  assume t: "W3DSound_toXML E self all_sounds_root = (root', Inr sound_root)"
    and r: "get (W3DSound_class E) self ''repetitions'' = Inr r"
  from W3DSound_toXML_ok [OF t] r obtain attrib mode rs settings where
    c: "repeat_children E r = (rs, None)"
    and s: "sound_root = Element ''Sound'' attrib PNone
             [Element ''Mode'' [] PNone [Element mode [] PNone []],
              Element ''Repeat'' [] PNone rs,
              Element ''Settings'' settings PNone []]"
    by auto
  from repeat_children_ok [OF c] obtain x where x: "py_num r = Some x"
    and rs: "rs = [if x < 0 then Element ''RepeatForever'' [] PNone []
                 else if x = 0 then Element ''NoRepeat'' [] PNone []
                 else Element ''RepeatNum'' [] (PStr (py_str E r)) []]" by blast
  have "find_child sound_root ''Repeat'' = Some (Element ''Repeat'' [] PNone rs)"
    by (simp add: s find_child_def)
  with x rs show "\<exists>x. py_num r = Some x
          \<and> find_child sound_root ''Repeat''
              = Some (Element ''Repeat'' [] PNone
                  [if x < 0 then Element ''RepeatForever'' [] PNone []
                   else if x = 0 then Element ''NoRepeat'' [] PNone []
                   else Element ''RepeatNum'' [] (PStr (py_str E r)) []])"
    by blast
next
  assume "map_of self ''repetitions'' = None"
  then show "get (W3DSound_class E) self ''repetitions'' = Inr (PInt 0)"
    by (simp add: get_absent W3DSound_missing)
qed (simp_all add: py_str_def str_int_3)

theorem C8_repeat_witness:
  "(\<exists>sound_root.
      W3DSound_toXML sample_ext
        [(''name'', PStr ''bell''), (''filename'', PStr ''bell.wav''), (''repetitions'', PInt (- 1))]
        (Element ''SoundRoot'' [] PNone [])
        = (SubElement (Element ''SoundRoot'' [] PNone []) sound_root, Inr sound_root)
    \<and> find_child sound_root ''Repeat''
        = Some (Element ''Repeat'' [] PNone [Element ''RepeatForever'' [] PNone []]))
   \<and> (\<exists>sound_root.
      W3DSound_toXML sample_ext
        [(''name'', PStr ''bell''), (''filename'', PStr ''bell.wav''), (''repetitions'', PInt (- 5))]
        (Element ''SoundRoot'' [] PNone [])
        = (SubElement (Element ''SoundRoot'' [] PNone []) sound_root, Inr sound_root)
    \<and> find_child sound_root ''Repeat''
        = Some (Element ''Repeat'' [] PNone [Element ''RepeatForever'' [] PNone []]))
   \<and> (\<exists>sound_root.
      W3DSound_toXML sample_ext
        [(''name'', PStr ''bell''), (''filename'', PStr ''bell.wav'')]
        (Element ''SoundRoot'' [] PNone [])
        = (SubElement (Element ''SoundRoot'' [] PNone []) sound_root, Inr sound_root)
    \<and> find_child sound_root ''Repeat''
        = Some (Element ''Repeat'' [] PNone [Element ''NoRepeat'' [] PNone []]))
   \<and> (\<exists>sound_root.
      W3DSound_toXML sample_ext
        [(''name'', PStr ''bell''), (''filename'', PStr ''bell.wav''), (''repetitions'', PInt 3)]
        (Element ''SoundRoot'' [] PNone [])
        = (SubElement (Element ''SoundRoot'' [] PNone []) sound_root, Inr sound_root)
    \<and> find_child sound_root ''Repeat''
        = Some (Element ''Repeat'' [] PNone [Element ''RepeatNum'' [] (PStr ''3'') []]))
   \<and> (\<exists>sound_root.
      W3DSound_toXML sample_ext
        [(''name'', PStr ''bell''), (''filename'', PStr ''bell.wav''), (''repetitions'', PInt 7)]
        (Element ''SoundRoot'' [] PNone [])
        = (SubElement (Element ''SoundRoot'' [] PNone []) sound_root, Inr sound_root)
    \<and> find_child sound_root ''Repeat''
        = Some (Element ''Repeat'' [] PNone [Element ''RepeatNum'' [] (PStr ''7'') []]))"
proof -
  have s7: "str_int 7 = ''7''" by code_simp
  have a: "(\<exists>sound_root.
      W3DSound_toXML sample_ext
        [(''name'', PStr ''bell''), (''filename'', PStr ''bell.wav''), (''repetitions'', PInt (- 1))]
        (Element ''SoundRoot'' [] PNone [])
        = (SubElement (Element ''SoundRoot'' [] PNone []) sound_root, Inr sound_root)
    \<and> find_child sound_root ''Repeat''
        = Some (Element ''Repeat'' [] PNone [Element ''RepeatForever'' [] PNone []]))"
    using C8_repeat [of "[(''name'', PStr ''bell''), (''filename'', PStr ''bell.wav''), (''repetitions'', PInt (- 1))]"
        sample_ext "PInt (- 1)" "- 1" "Element ''SoundRoot'' [] PNone []"]
    by (simp add: get_stored)
  have b: "(\<exists>sound_root.
      W3DSound_toXML sample_ext
        [(''name'', PStr ''bell''), (''filename'', PStr ''bell.wav''), (''repetitions'', PInt (- 5))]
        (Element ''SoundRoot'' [] PNone [])
        = (SubElement (Element ''SoundRoot'' [] PNone []) sound_root, Inr sound_root)
    \<and> find_child sound_root ''Repeat''
        = Some (Element ''Repeat'' [] PNone [Element ''RepeatForever'' [] PNone []]))"
    using C8_repeat [of "[(''name'', PStr ''bell''), (''filename'', PStr ''bell.wav''), (''repetitions'', PInt (- 5))]"
        sample_ext "PInt (- 5)" "- 5" "Element ''SoundRoot'' [] PNone []"]
    by (simp add: get_stored)
  have c: "(\<exists>sound_root.
      W3DSound_toXML sample_ext
        [(''name'', PStr ''bell''), (''filename'', PStr ''bell.wav'')]
        (Element ''SoundRoot'' [] PNone [])
        = (SubElement (Element ''SoundRoot'' [] PNone []) sound_root, Inr sound_root)
    \<and> find_child sound_root ''Repeat''
        = Some (Element ''Repeat'' [] PNone [Element ''NoRepeat'' [] PNone []]))"
    using C8_repeat [of "[(''name'', PStr ''bell''), (''filename'', PStr ''bell.wav'')]"
        sample_ext "PInt 0" "0" "Element ''SoundRoot'' [] PNone []"]
    by (simp add: get_absent W3DSound_missing)
  have d: "(\<exists>sound_root.
      W3DSound_toXML sample_ext
        [(''name'', PStr ''bell''), (''filename'', PStr ''bell.wav''), (''repetitions'', PInt 3)]
        (Element ''SoundRoot'' [] PNone [])
        = (SubElement (Element ''SoundRoot'' [] PNone []) sound_root, Inr sound_root)
    \<and> find_child sound_root ''Repeat''
        = Some (Element ''Repeat'' [] PNone [Element ''RepeatNum'' [] (PStr ''3'') []]))"
    using C8_repeat [of "[(''name'', PStr ''bell''), (''filename'', PStr ''bell.wav''), (''repetitions'', PInt 3)]"
        sample_ext "PInt 3" "3" "Element ''SoundRoot'' [] PNone []"]
    by (simp add: get_stored py_str_def str_int_3)
  have e: "(\<exists>sound_root.
      W3DSound_toXML sample_ext
        [(''name'', PStr ''bell''), (''filename'', PStr ''bell.wav''), (''repetitions'', PInt 7)]
        (Element ''SoundRoot'' [] PNone [])
        = (SubElement (Element ''SoundRoot'' [] PNone []) sound_root, Inr sound_root)
    \<and> find_child sound_root ''Repeat''
        = Some (Element ''Repeat'' [] PNone [Element ''RepeatNum'' [] (PStr ''7'') []]))"
    using C8_repeat [of "[(''name'', PStr ''bell''), (''filename'', PStr ''bell.wav''), (''repetitions'', PInt 7)]"
        sample_ext "PInt 7" "7" "Element ''SoundRoot'' [] PNone []"]
    by (simp add: get_stored py_str_def s7)
  from a b c d e show ?thesis by blast
qed

subsection \<open>The round trip of a sound\<close>

text \<open>
  C1, as stated, fails. A sound built with \<open>repetitions = -5\<close> serializes to a node with the
  \<^verbatim>\<open>RepeatForever\<close> marker, which is read back as \<open>repetitions = -1\<close>.
\<close>

theorem C1_counterexample:
  "valid_feature (W3DSound_class sample_ext)
     [(''name'', PStr ''bell''), (''filename'', PStr ''bell.wav''), (''repetitions'', PInt (- 5))]
   \<and> snd (W3DSound_toXML sample_ext
          [(''name'', PStr ''bell''), (''filename'', PStr ''bell.wav''), (''repetitions'', PInt (- 5))]
          (Element ''SoundRoot'' [] PNone []))
     = Inr (Element ''Sound'' [(''name'', PStr ''bell''), (''filename'', PStr ''bell.wav'')] PNone
        [Element ''Mode'' [] PNone [Element ''Positional'' [] PNone []],
         Element ''Repeat'' [] PNone [Element ''RepeatForever'' [] PNone []],
         Element ''Settings'' [] PNone []])
   \<and> W3DSound_fromXML sample_ext
        (Element ''Sound'' [(''name'', PStr ''bell''), (''filename'', PStr ''bell.wav'')] PNone
          [Element ''Mode'' [] PNone [Element ''Positional'' [] PNone []],
           Element ''Repeat'' [] PNone [Element ''RepeatForever'' [] PNone []],
           Element ''Settings'' [] PNone []])
     = Inr [(''name'', PStr ''bell''), (''filename'', PStr ''bell.wav''),
            (''movement_mode'', PStr ''Positional''), (''repetitions'', PInt (- 1))]"
  by code_simp

text \<open>
  C1, amended. For a sound built through validated writes whose name and file name are
  strings and whose count, if stored, is an integer, serializing succeeds and parsing the
  result gives an instance that agrees with the sound on \<open>name\<close>, \<open>filename\<close>, \<open>autostart\<close>
  and \<open>movement_mode\<close>, on \<open>repetitions\<close> with every negative count read back as \<open>-1\<close>, and
  as equal numbers on \<open>frequency_scale\<close>, \<open>volume_scale\<close> and \<open>pan\<close>. This supposes of the
  conversions that are not part of the sources that \<open>text2bool\<close> reads back what
  \<open>bool2text\<close> writes for the stored \<open>autostart\<close>, and that \<^verbatim>\<open>float\<close> reads back what \<^verbatim>\<open>str\<close>
  writes for the stored settings (\<open>sound_ready\<close>). The law is stated for sounds: of the
  actions of actions.py no instance is ever parsed (C3, C7).
\<close>

theorem C1_roundtrip:
  "sound_ready E x \<longrightarrow>
      (\<exists>X y. W3DSound_toXML E x all_sounds_root = (SubElement all_sounds_root X, Inr X)
         \<and> W3DSound_fromXML E X = Inr y \<and> sound_agrees x y)"
  using W3DSound_roundtrip [of E x all_sounds_root] by blast

theorem C1_roundtrip_witness:
  "sound_ready sample_ext
     [(''name'', PStr ''bell''), (''filename'', PStr ''bell.wav''), (''autostart'', PBool True),
      (''repetitions'', PInt 3), (''pan'', PInt 0)]
   \<and> (\<exists>X y. W3DSound_toXML sample_ext
          [(''name'', PStr ''bell''), (''filename'', PStr ''bell.wav''), (''autostart'', PBool True),
           (''repetitions'', PInt 3), (''pan'', PInt 0)] (Element ''SoundRoot'' [] PNone [])
          = (SubElement (Element ''SoundRoot'' [] PNone []) X, Inr X)
        \<and> W3DSound_fromXML sample_ext X = Inr y
        \<and> sound_agrees
            [(''name'', PStr ''bell''), (''filename'', PStr ''bell.wav''), (''autostart'', PBool True),
             (''repetitions'', PInt 3), (''pan'', PInt 0)] y)"
proof -
  have s: "sound_ready sample_ext
     [(''name'', PStr ''bell''), (''filename'', PStr ''bell.wav''), (''autostart'', PBool True),
      (''repetitions'', PInt 3), (''pan'', PInt 0)]"
    by code_simp
  from s
    C1_roundtrip [of sample_ext
      "[(''name'', PStr ''bell''), (''filename'', PStr ''bell.wav''), (''autostart'', PBool True),
        (''repetitions'', PInt 3), (''pan'', PInt 0)]" "Element ''SoundRoot'' [] PNone []"]
  show ?thesis by blast
qed

end
